theory Spec2Isabelle
  imports Main "HOL-Library.Word" "HOL-Library.Monad_Syntax"
begin

section \<open>Geometry and pointers\<close>

text \<open>
  The coordinates of \<^verbatim>\<open>GPoint\<close>, \<^verbatim>\<open>GSize\<close> and \<^verbatim>\<open>GRect\<close> are \<^verbatim>\<open>int16_t\<close>:
  every sum and difference below is the 16-bit one. A pointer is a heap address,
  \<open>0\<close> is \<^verbatim>\<open>NULL\<close>.
\<close>

type_synonym int16 = "16 word"
type_synonym ptr = nat

datatype GPoint = GPoint (point_x: int16) (point_y: int16)
datatype GSize = GSize (size_w: int16) (size_h: int16)
datatype GRect = MkGRect (origin: GPoint) (rect_size: GSize)

abbreviation GRect :: "int16 \<Rightarrow> int16 \<Rightarrow> int16 \<Rightarrow> int16 \<Rightarrow> GRect" where
  "GRect x y w h \<equiv> MkGRect (GPoint x y) (GSize w h)"

definition GRectZero :: GRect where
  "GRectZero = GRect 0 0 0 0"

definition NULL :: ptr where
  "NULL = 0"

definition NAME_HEIGHT :: int16 where
  "NAME_HEIGHT = 20"

section \<open>The conversation data model (conversation.h)\<close>

text \<open>
  The enumerators are the ones \<^verbatim>\<open>prv_get_segment_type\<close> names. A C enum object can
  hold any value of its integer type: \<open>EntryTypeOther n\<close> and
  \<open>ConversationWidgetTypeOther n\<close> stand for a raw value \<open>n\<close> that is none of the
  enumerators named in the switch.
\<close>

datatype EntryType =
    EntryTypeDeleted
  | EntryTypePrompt
  | EntryTypeResponse
  | EntryTypeThought
  | EntryTypeError
  | EntryTypeAction
  | EntryTypeWidget
  | EntryTypeOther int

datatype ConversationWidgetType =
    ConversationWidgetTypeWeatherSingleDay
  | ConversationWidgetTypeWeatherCurrent
  | ConversationWidgetTypeWeatherMultiDay
  | ConversationWidgetTypeTimer
  | ConversationWidgetTypeNumber
  | ConversationWidgetTypeMap
  | ConversationWidgetTypeOther int

record ConversationWidget =
  widget_type :: ConversationWidgetType

record ConversationEntry =
  entry_type :: EntryType
  entry_widget :: ConversationWidget

section \<open>Segment data\<close>

datatype SegmentType =
    SegmentTypeNone
  | SegmentTypeMessage
  | SegmentTypeInfo
  | SegmentTypeWeatherSingleDayWidget
  | SegmentTypeWeatherCurrentWidget
  | SegmentTypeWeatherMultiDayWidget
  | SegmentTypeTimerWidget
  | SegmentTypeNumberWidget
  | SegmentTypeMapWidget

text \<open>
  \<^verbatim>\<open>SegmentLayerData\<close>. The members of the anonymous union share one storage cell,
  and each of them is a pointer to a layer: the cell is the field \<open>layer\<close>.
\<close>

record SegmentLayerData =
  entry :: ptr
  assistant_label_layer :: ptr
  type :: SegmentType
  layer :: ptr

section \<open>The world: heap of layers, data model, calls made\<close>

datatype view_kind = PlainLayer | TextLayer | View SegmentType

record layer_obj =
  frame :: GRect
  children :: "ptr list"
  data :: "SegmentLayerData option"
  label_text :: string
  kind :: view_kind
  view_entry :: ptr

datatype log_level = APP_LOG_LEVEL_INFO | APP_LOG_LEVEL_WARNING

datatype log_arg = ArgEntryType EntryType | ArgPtr ptr

text \<open>
  One event for each call the component makes to a collaborator that the claims speak
  of: the two accessors of the entry, the logger, and the constructors, updaters and
  destructors of layers and views.
\<close>

datatype event =
    Call_get_type ptr
  | Call_get_widget ptr
  | Call_log log_level string log_arg
  | Call_create view_kind ptr
  | Call_update SegmentType ptr
  | Call_destroy view_kind ptr

text \<open>
  The heap is the list of all cells ever allocated, address \<open>p > 0\<close> at index \<open>p - 1\<close>;
  a released cell is \<open>None\<close>. An allocation takes the next address, so an address is
  never handed out twice and a stale pointer is seen as such.
\<close>

record world =
  heap :: "layer_obj option list"
  entries :: "ptr \<Rightarrow> ConversationEntry"
  trace :: "event list"

text \<open>
  What the component is built against: the feature switch of \<^verbatim>\<open>features.h\<close>, and for
  each kind of concrete view the frame it gives itself when constructed in a frame
  for an entry, and the frame it gives itself when updated (from the entry's current
  state and its frame so far).
\<close>

record collab =
  ENABLE_FEATURE_MAPS :: bool
  create_frame :: "SegmentType \<Rightarrow> GRect \<Rightarrow> ConversationEntry \<Rightarrow> GRect"
  update_frame :: "SegmentType \<Rightarrow> ConversationEntry \<Rightarrow> GRect \<Rightarrow> GRect"

definition emit :: "event \<Rightarrow> world \<Rightarrow> world" where
  "emit ev s = s\<lparr>trace := trace s @ [ev]\<rparr>"

definition lookup :: "world \<Rightarrow> ptr \<Rightarrow> layer_obj option" where
  "lookup s p = (if p = 0 \<or> length (heap s) < p then None else heap s ! (p - 1))"

definition alloc :: "layer_obj \<Rightarrow> world \<Rightarrow> ptr \<times> world" where
  "alloc obj s = (Suc (length (heap s)), s\<lparr>heap := heap s @ [Some obj]\<rparr>)"

text \<open>Writing to or releasing a cell that is not live is a fault: \<open>None\<close>.\<close>

definition store :: "ptr \<Rightarrow> layer_obj \<Rightarrow> world \<Rightarrow> world option" where
  "store p obj s =
     (case lookup s p of
        None \<Rightarrow> None
      | Some _ \<Rightarrow> Some (s\<lparr>heap := (heap s)[p - 1 := Some obj]\<rparr>))"

definition release :: "ptr \<Rightarrow> world \<Rightarrow> world option" where
  "release p s =
     (case lookup s p of
        None \<Rightarrow> None
      | Some _ \<Rightarrow> Some (s\<lparr>heap := (heap s)[p - 1 := None]\<rparr>))"

section \<open>Collaborators\<close>

subsection \<open>Data model and logger\<close>

text \<open>
  Modelled from the spec: the accessor \<^verbatim>\<open>entry.get_type() -> EntryType\<close> of the data
  model (\<^verbatim>\<open>conversation.h\<close>, whose code is not part of the source file).
\<close>

definition conversation_entry_get_type :: "ptr \<Rightarrow> world \<Rightarrow> EntryType \<times> world" where
  "conversation_entry_get_type e s = (entry_type (entries s e), emit (Call_get_type e) s)"

text \<open>
  Modelled from the spec: the accessor \<^verbatim>\<open>entry.get_widget() -> WidgetDescriptor\<close> of the
  data model, valid only when the type is Widget; the call is recorded so that the
  callers can be held to that.
\<close>

definition conversation_entry_get_widget :: "ptr \<Rightarrow> world \<Rightarrow> ConversationWidget \<times> world" where
  "conversation_entry_get_widget e s = (entry_widget (entries s e), emit (Call_get_widget e) s)"

text \<open>
  Modelled from the spec: the logger (\<^verbatim>\<open>util/logging.h\<close>, not part of the source file)
  records the message with its level and returns; no level is fatal.
\<close>

definition BOBBY_LOG :: "log_level \<Rightarrow> string \<Rightarrow> log_arg \<Rightarrow> world \<Rightarrow> world" where
  "BOBBY_LOG lvl fmt arg s = emit (Call_log lvl fmt arg) s"

subsection \<open>The view tree\<close>

text \<open>
  The generic view-tree collaborator is \<^verbatim>\<open>pebble.h\<close> and \<^verbatim>\<open>util/memory/sdk.h\<close>, whose
  code is not part of the source file. The spec lists what the component consumes from
  it: view allocation with attached custom data, parent/child attachment, frame
  get/set, label-view creation with settable text, and destroy. Using a pointer to no
  live layer is a fault, with the two exceptions stated below for an absent child.
\<close>

text \<open>
  Modelled from the spec: view allocation with attached custom data. Allocation does
  not fail. The attached data starts zero-filled, so the tag reads the first enumerator
  and the union cell reads \<^verbatim>\<open>NULL\<close> until a constructor's result is stored there.
\<close>

definition blayer_create_with_data :: "GRect \<Rightarrow> world \<Rightarrow> ptr \<times> world" where
  "blayer_create_with_data rect s =
     (let (p, s') = alloc \<lparr>frame = rect, children = [],
                          data = Some \<lparr>entry = NULL, assistant_label_layer = NULL,
                                       type = SegmentTypeNone, layer = NULL\<rparr>,
                          label_text = [], kind = PlainLayer, view_entry = NULL\<rparr> s
      in (p, emit (Call_create PlainLayer p) s'))"

text \<open>Modelled from the spec: label-view creation; the text starts empty.\<close>

definition btext_layer_create :: "GRect \<Rightarrow> world \<Rightarrow> ptr \<times> world" where
  "btext_layer_create rect s =
     (let (p, s') = alloc \<lparr>frame = rect, children = [], data = None,
                          label_text = [], kind = TextLayer, view_entry = NULL\<rparr> s
      in (p, emit (Call_create TextLayer p) s'))"

text \<open>Modelled from the spec: a text layer is attached and framed as the layer it is.\<close>

definition text_layer_get_layer :: "ptr \<Rightarrow> ptr" where
  "text_layer_get_layer lbl = lbl"

text \<open>Modelled from the spec: the custom data attached to a live layer.\<close>

definition layer_get_data :: "ptr \<Rightarrow> world \<Rightarrow> SegmentLayerData option" where
  "layer_get_data p s = (case lookup s p of None \<Rightarrow> None | Some l \<Rightarrow> data l)"

text \<open>An assignment through the data pointer, \<^verbatim>\<open>data->field = v\<close>.\<close>

definition data_assign ::
  "ptr \<Rightarrow> (SegmentLayerData \<Rightarrow> SegmentLayerData) \<Rightarrow> world \<Rightarrow> world option" where
  "data_assign p f s =
     (case lookup s p of
        None \<Rightarrow> None
      | Some l \<Rightarrow> (case data l of
                     None \<Rightarrow> None
                   | Some d \<Rightarrow> store p (l\<lparr>data := Some (f d)\<rparr>) s))"

text \<open>
  Modelled from the spec: parent/child attachment. The \<open>SegmentTypeNone\<close> variant owns
  no child view and constructs nothing: attaching the absent child \<^verbatim>\<open>NULL\<close> does nothing.
\<close>

definition layer_add_child :: "ptr \<Rightarrow> ptr \<Rightarrow> world \<Rightarrow> world option" where
  "layer_add_child parent child s =
     (case lookup s parent of
        None \<Rightarrow> None
      | Some l \<Rightarrow>
          if child = NULL then Some s
          else (case lookup s child of
                  None \<Rightarrow> None
                | Some _ \<Rightarrow> store parent (l\<lparr>children := children l @ [child]\<rparr>) s))"

text \<open>Modelled from the spec: the settable text of a label view.\<close>

definition text_layer_set_text :: "ptr \<Rightarrow> string \<Rightarrow> world \<Rightarrow> world option" where
  "text_layer_set_text lbl str s =
     (case lookup s lbl of
        None \<Rightarrow> None
      | Some l \<Rightarrow> if kind l = TextLayer then store lbl (l\<lparr>label_text := str\<rparr>) s else None)"

text \<open>
  Modelled from the spec: frame get. An empty segment has zero child content: the frame
  read through the absent child \<^verbatim>\<open>NULL\<close> is the zero rectangle.
\<close>

definition layer_get_frame :: "ptr \<Rightarrow> world \<Rightarrow> GRect option" where
  "layer_get_frame p s =
     (if p = NULL then Some GRectZero
      else (case lookup s p of None \<Rightarrow> None | Some l \<Rightarrow> Some (frame l)))"

text \<open>Modelled from the spec: frame set.\<close>

definition layer_set_frame :: "ptr \<Rightarrow> GRect \<Rightarrow> world \<Rightarrow> world option" where
  "layer_set_frame p r s =
     (case lookup s p of None \<Rightarrow> None | Some l \<Rightarrow> store p (l\<lparr>frame := r\<rparr>) s)"

text \<open>Modelled from the spec: destroy of a label view, which releases its cell.\<close>

definition text_layer_destroy :: "ptr \<Rightarrow> world \<Rightarrow> world option" where
  "text_layer_destroy lbl s =
     (case lookup s lbl of
        None \<Rightarrow> None
      | Some l \<Rightarrow> if kind l = TextLayer
                  then release lbl (emit (Call_destroy TextLayer lbl) s) else None)"

text \<open>Modelled from the spec: destroy of a plain layer, which releases its cell.\<close>

definition layer_destroy :: "ptr \<Rightarrow> world \<Rightarrow> world option" where
  "layer_destroy p s =
     (case lookup s p of
        None \<Rightarrow> None
      | Some l \<Rightarrow> if kind l = PlainLayer
                  then release p (emit (Call_destroy PlainLayer p) s) else None)"

subsection \<open>The concrete views\<close>

text \<open>
  The concrete view collaborators are \<^verbatim>\<open>message_layer.h\<close>, \<^verbatim>\<open>info_layer.h\<close> and
  \<^verbatim>\<open>widgets/*.h\<close>, whose code is not part of the source file. In the spec they have one
  shape, \<^verbatim>\<open>create(frame, entry)\<close>, \<^verbatim>\<open>update(view)\<close>, \<^verbatim>\<open>destroy(view)\<close>, and a view is a
  layer that sizes itself and touches nothing but itself. The functions of each kind
  are those of the shape at that kind. Calling the updater or the destructor of one
  kind on a view of another kind, or on no live view, is a fault.
\<close>

text \<open>
  Modelled from the spec: \<^verbatim>\<open>create(frame, entry) -> ViewHandle\<close>; the view gives itself
  its natural frame and keeps the entry.
\<close>

definition view_create ::
  "collab \<Rightarrow> SegmentType \<Rightarrow> GRect \<Rightarrow> ptr \<Rightarrow> world \<Rightarrow> ptr \<times> world" where
  "view_create cb t fr e s =
     (let (p, s') = alloc \<lparr>frame = create_frame cb t fr (entries s e), children = [],
                          data = None, label_text = [], kind = View t, view_entry = e\<rparr> s
      in (p, emit (Call_create (View t) p) s'))"

text \<open>
  Modelled from the spec: \<^verbatim>\<open>update(ViewHandle)\<close> re-reads the current state of the
  view's entry and re-renders, which may change the view's frame.
\<close>

definition view_update :: "collab \<Rightarrow> SegmentType \<Rightarrow> ptr \<Rightarrow> world \<Rightarrow> world option" where
  "view_update cb t p s =
     (case lookup s p of
        None \<Rightarrow> None
      | Some l \<Rightarrow>
          if kind l = View t
          then store p (l\<lparr>frame := update_frame cb t (entries s (view_entry l)) (frame l)\<rparr>)
                 (emit (Call_update t p) s)
          else None)"

text \<open>Modelled from the spec: \<^verbatim>\<open>destroy(ViewHandle)\<close> releases the view's cell.\<close>

definition view_destroy :: "SegmentType \<Rightarrow> ptr \<Rightarrow> world \<Rightarrow> world option" where
  "view_destroy t p s =
     (case lookup s p of
        None \<Rightarrow> None
      | Some l \<Rightarrow> if kind l = View t
                  then release p (emit (Call_destroy (View t) p) s) else None)"

definition message_layer_create where
  "message_layer_create cb = view_create cb SegmentTypeMessage"
definition info_layer_create where
  "info_layer_create cb = view_create cb SegmentTypeInfo"
definition weather_single_day_widget_create where
  "weather_single_day_widget_create cb = view_create cb SegmentTypeWeatherSingleDayWidget"
definition weather_current_widget_create where
  "weather_current_widget_create cb = view_create cb SegmentTypeWeatherCurrentWidget"
definition weather_multi_day_widget_create where
  "weather_multi_day_widget_create cb = view_create cb SegmentTypeWeatherMultiDayWidget"
definition timer_widget_create where
  "timer_widget_create cb = view_create cb SegmentTypeTimerWidget"
definition number_widget_create where
  "number_widget_create cb = view_create cb SegmentTypeNumberWidget"
definition map_widget_create where
  "map_widget_create cb = view_create cb SegmentTypeMapWidget"

definition message_layer_update where
  "message_layer_update cb = view_update cb SegmentTypeMessage"
definition info_layer_update where
  "info_layer_update cb = view_update cb SegmentTypeInfo"
definition weather_single_day_widget_update where
  "weather_single_day_widget_update cb = view_update cb SegmentTypeWeatherSingleDayWidget"
definition weather_current_widget_update where
  "weather_current_widget_update cb = view_update cb SegmentTypeWeatherCurrentWidget"
definition weather_multi_day_widget_update where
  "weather_multi_day_widget_update cb = view_update cb SegmentTypeWeatherMultiDayWidget"
definition timer_widget_update where
  "timer_widget_update cb = view_update cb SegmentTypeTimerWidget"
definition number_widget_update where
  "number_widget_update cb = view_update cb SegmentTypeNumberWidget"
definition map_widget_update where
  "map_widget_update cb = view_update cb SegmentTypeMapWidget"

definition message_layer_destroy where
  "message_layer_destroy = view_destroy SegmentTypeMessage"
definition info_layer_destroy where
  "info_layer_destroy = view_destroy SegmentTypeInfo"
definition weather_single_day_widget_destroy where
  "weather_single_day_widget_destroy = view_destroy SegmentTypeWeatherSingleDayWidget"
definition weather_current_widget_destroy where
  "weather_current_widget_destroy = view_destroy SegmentTypeWeatherCurrentWidget"
definition weather_multi_day_widget_destroy where
  "weather_multi_day_widget_destroy = view_destroy SegmentTypeWeatherMultiDayWidget"
definition timer_widget_destroy where
  "timer_widget_destroy = view_destroy SegmentTypeTimerWidget"
definition number_widget_destroy where
  "number_widget_destroy = view_destroy SegmentTypeNumberWidget"
definition map_widget_destroy where
  "map_widget_destroy = view_destroy SegmentTypeMapWidget"

section \<open>The component: segment_layer.c\<close>

subsection \<open>prv_get_segment_type\<close>

text \<open>
  The last two statements of the function, reached when no \<^verbatim>\<open>return\<close> of the switch
  was taken: the warning, whose argument calls the type accessor again, and
  \<^verbatim>\<open>return SegmentTypeNone\<close>.
\<close>

definition prv_get_segment_type_unknown :: "ptr \<Rightarrow> world \<Rightarrow> SegmentType \<times> world" where
  "prv_get_segment_type_unknown e s =
     (let (t, s') = conversation_entry_get_type e s
      in (SegmentTypeNone,
          BOBBY_LOG APP_LOG_LEVEL_WARNING ''Unknown entry type %d.'' (ArgEntryType t) s'))"

definition prv_get_segment_type :: "collab \<Rightarrow> ptr \<Rightarrow> world \<Rightarrow> SegmentType \<times> world" where
  "prv_get_segment_type cb e s =
     (let (t, s1) = conversation_entry_get_type e s in
      case t of
        EntryTypeDeleted \<Rightarrow> (SegmentTypeNone, s1)
      | EntryTypePrompt \<Rightarrow> (SegmentTypeMessage, s1)
      | EntryTypeResponse \<Rightarrow> (SegmentTypeMessage, s1)
      | EntryTypeThought \<Rightarrow> (SegmentTypeInfo, s1)
      | EntryTypeError \<Rightarrow> (SegmentTypeInfo, s1)
      | EntryTypeAction \<Rightarrow> (SegmentTypeInfo, s1)
      | EntryTypeWidget \<Rightarrow>
          (let (wd, s2) = conversation_entry_get_widget e s1 in
           case widget_type wd of
             ConversationWidgetTypeWeatherSingleDay \<Rightarrow> (SegmentTypeWeatherSingleDayWidget, s2)
           | ConversationWidgetTypeWeatherCurrent \<Rightarrow> (SegmentTypeWeatherCurrentWidget, s2)
           | ConversationWidgetTypeWeatherMultiDay \<Rightarrow> (SegmentTypeWeatherMultiDayWidget, s2)
           | ConversationWidgetTypeTimer \<Rightarrow> (SegmentTypeTimerWidget, s2)
           | ConversationWidgetTypeNumber \<Rightarrow> (SegmentTypeNumberWidget, s2)
           | ConversationWidgetTypeMap \<Rightarrow>
               if ENABLE_FEATURE_MAPS cb then (SegmentTypeMapWidget, s2)
               else prv_get_segment_type_unknown e s2
           | ConversationWidgetTypeOther _ \<Rightarrow> prv_get_segment_type_unknown e s2)
      | EntryTypeOther _ \<Rightarrow> prv_get_segment_type_unknown e s1)"

subsection \<open>segment_layer_create\<close>

text \<open>The switch on \<^verbatim>\<open>data->type\<close> that constructs the concrete view (lines 90 to 119).\<close>

definition segment_layer_create_child ::
  "collab \<Rightarrow> ptr \<Rightarrow> SegmentType \<Rightarrow> GRect \<Rightarrow> ptr \<Rightarrow> world \<Rightarrow> world option" where
  "segment_layer_create_child cb l t child_frame e s =
     (case t of
        SegmentTypeNone \<Rightarrow> Some s
      | SegmentTypeMessage \<Rightarrow>
          (let (c, s') = message_layer_create cb child_frame e s
           in data_assign l (\<lambda>d. d\<lparr>layer := c\<rparr>) s')
      | SegmentTypeInfo \<Rightarrow>
          (let (c, s') = info_layer_create cb child_frame e s
           in data_assign l (\<lambda>d. d\<lparr>layer := c\<rparr>) s')
      | SegmentTypeWeatherSingleDayWidget \<Rightarrow>
          (let (c, s') = weather_single_day_widget_create cb child_frame e s
           in data_assign l (\<lambda>d. d\<lparr>layer := c\<rparr>) s')
      | SegmentTypeWeatherCurrentWidget \<Rightarrow>
          (let (c, s') = weather_current_widget_create cb child_frame e s
           in data_assign l (\<lambda>d. d\<lparr>layer := c\<rparr>) s')
      | SegmentTypeWeatherMultiDayWidget \<Rightarrow>
          (let (c, s') = weather_multi_day_widget_create cb child_frame e s
           in data_assign l (\<lambda>d. d\<lparr>layer := c\<rparr>) s')
      | SegmentTypeTimerWidget \<Rightarrow>
          (let (c, s') = timer_widget_create cb child_frame e s
           in data_assign l (\<lambda>d. d\<lparr>layer := c\<rparr>) s')
      | SegmentTypeNumberWidget \<Rightarrow>
          (let (c, s') = number_widget_create cb child_frame e s
           in data_assign l (\<lambda>d. d\<lparr>layer := c\<rparr>) s')
      | SegmentTypeMapWidget \<Rightarrow>
          if ENABLE_FEATURE_MAPS cb
          then (let (c, s') = map_widget_create cb child_frame e s
                in data_assign l (\<lambda>d. d\<lparr>layer := c\<rparr>) s')
          else Some s)"

text \<open>
  The label (lines 81 to 89): the world after it and the frame for the concrete view.
\<close>

definition segment_layer_create_label ::
  "ptr \<Rightarrow> GRect \<Rightarrow> bool \<Rightarrow> world \<Rightarrow> (GRect \<times> world) option" where
  "segment_layer_create_label l rect assistant_label s =
     (let child_frame = GRect 0 0 (size_w (rect_size rect)) (size_h (rect_size rect)) in
      if assistant_label then do {
        let (lbl, s1) = btext_layer_create (GRect 5 0 (size_w (rect_size rect)) NAME_HEIGHT) s;
        s2 \<leftarrow> data_assign l (\<lambda>d. d\<lparr>assistant_label_layer := lbl\<rparr>) s1;
        d \<leftarrow> layer_get_data l s2;
        s3 \<leftarrow> layer_add_child l (text_layer_get_layer (assistant_label_layer d)) s2;
        d \<leftarrow> layer_get_data l s3;
        s4 \<leftarrow> text_layer_set_text (assistant_label_layer d) ''Bobby'' s3;
        Some (GRect 0 NAME_HEIGHT (size_w (rect_size rect))
                (size_h (rect_size rect) - NAME_HEIGHT), s4)
      } else do {
        s1 \<leftarrow> data_assign l (\<lambda>d. d\<lparr>assistant_label_layer := NULL\<rparr>) s;
        Some (child_frame, s1)
      })"

text \<open>The frame of the segment from the frame of the child (lines 121 to 125, 206 to 211).\<close>

definition final_frame :: "GPoint \<Rightarrow> GSize \<Rightarrow> ptr \<Rightarrow> GRect" where
  "final_frame org child_size lbl =
     (let r = GRect (point_x org) (point_y org) (size_w child_size) (size_h child_size)
      in if lbl \<noteq> NULL
         then MkGRect (origin r)
                (GSize (size_w (rect_size r)) (size_h (rect_size r) + NAME_HEIGHT))
         else r)"

definition segment_layer_create ::
  "collab \<Rightarrow> GRect \<Rightarrow> ptr \<Rightarrow> bool \<Rightarrow> world \<Rightarrow> (ptr \<times> world) option" where
  "segment_layer_create cb rect e assistant_label s = do {
     let (l, s1) = blayer_create_with_data rect s;
     s2 \<leftarrow> data_assign l (\<lambda>d. d\<lparr>entry := e\<rparr>) s1;
     let (t, s3) = prv_get_segment_type cb e s2;
     s4 \<leftarrow> data_assign l (\<lambda>d. d\<lparr>type := t\<rparr>) s3;
     (child_frame, s5) \<leftarrow> segment_layer_create_label l rect assistant_label s4;
     d \<leftarrow> layer_get_data l s5;
     s6 \<leftarrow> segment_layer_create_child cb l (type d) child_frame e s5;
     d \<leftarrow> layer_get_data l s6;
     s7 \<leftarrow> layer_add_child l (layer d) s6;
     d \<leftarrow> layer_get_data l s7;
     fr \<leftarrow> layer_get_frame (layer d) s7;
     let child_size = rect_size fr;
     let final_size = final_frame (origin rect) child_size (assistant_label_layer d);
     s8 \<leftarrow> layer_set_frame l final_size s7;
     Some (l, s8)
   }"

subsection \<open>segment_layer_destroy\<close>

definition segment_layer_destroy_child ::
  "collab \<Rightarrow> SegmentLayerData \<Rightarrow> world \<Rightarrow> world option" where
  "segment_layer_destroy_child cb d s =
     (case type d of
        SegmentTypeNone \<Rightarrow> Some s
      | SegmentTypeMessage \<Rightarrow> message_layer_destroy (layer d) s
      | SegmentTypeInfo \<Rightarrow> info_layer_destroy (layer d) s
      | SegmentTypeWeatherSingleDayWidget \<Rightarrow> weather_single_day_widget_destroy (layer d) s
      | SegmentTypeWeatherCurrentWidget \<Rightarrow> weather_current_widget_destroy (layer d) s
      | SegmentTypeWeatherMultiDayWidget \<Rightarrow> weather_multi_day_widget_destroy (layer d) s
      | SegmentTypeTimerWidget \<Rightarrow> timer_widget_destroy (layer d) s
      | SegmentTypeNumberWidget \<Rightarrow> number_widget_destroy (layer d) s
      | SegmentTypeMapWidget \<Rightarrow>
          if ENABLE_FEATURE_MAPS cb then map_widget_destroy (layer d) s else Some s)"

definition segment_layer_destroy :: "collab \<Rightarrow> ptr \<Rightarrow> world \<Rightarrow> world option" where
  "segment_layer_destroy cb l s = do {
     let s1 = BOBBY_LOG APP_LOG_LEVEL_INFO ''destroying SegmentLayer %p.'' (ArgPtr l) s;
     d \<leftarrow> layer_get_data l s1;
     s2 \<leftarrow> segment_layer_destroy_child cb d s1;
     d \<leftarrow> layer_get_data l s2;
     s3 \<leftarrow> (if assistant_label_layer d \<noteq> NULL
            then text_layer_destroy (assistant_label_layer d) s2 else Some s2);
     layer_destroy l s3
   }"

subsection \<open>segment_layer_get_entry\<close>

definition segment_layer_get_entry :: "ptr \<Rightarrow> world \<Rightarrow> ptr option" where
  "segment_layer_get_entry l s = do {
     d \<leftarrow> layer_get_data l s;
     Some (entry d)
   }"

subsection \<open>segment_layer_update\<close>

definition segment_layer_update_child ::
  "collab \<Rightarrow> SegmentLayerData \<Rightarrow> world \<Rightarrow> world option" where
  "segment_layer_update_child cb d s =
     (case type d of
        SegmentTypeNone \<Rightarrow> Some s
      | SegmentTypeMessage \<Rightarrow> message_layer_update cb (layer d) s
      | SegmentTypeInfo \<Rightarrow> info_layer_update cb (layer d) s
      | SegmentTypeWeatherSingleDayWidget \<Rightarrow> weather_single_day_widget_update cb (layer d) s
      | SegmentTypeWeatherCurrentWidget \<Rightarrow> weather_current_widget_update cb (layer d) s
      | SegmentTypeWeatherMultiDayWidget \<Rightarrow> weather_multi_day_widget_update cb (layer d) s
      | SegmentTypeTimerWidget \<Rightarrow> timer_widget_update cb (layer d) s
      | SegmentTypeNumberWidget \<Rightarrow> number_widget_update cb (layer d) s
      | SegmentTypeMapWidget \<Rightarrow>
          if ENABLE_FEATURE_MAPS cb then map_widget_update cb (layer d) s else Some s)"

definition segment_layer_update :: "collab \<Rightarrow> ptr \<Rightarrow> world \<Rightarrow> world option" where
  "segment_layer_update cb l s = do {
     d \<leftarrow> layer_get_data l s;
     s1 \<leftarrow> segment_layer_update_child cb d s;
     d \<leftarrow> layer_get_data l s1;
     fr \<leftarrow> layer_get_frame (layer d) s1;
     let child_size = rect_size fr;
     own \<leftarrow> layer_get_frame l s1;
     let org = origin own;
     s2 \<leftarrow> layer_set_frame l (final_frame org child_size (assistant_label_layer d)) s1;
     Some s2
   }"

section \<open>Vocabulary for the properties\<close>

text \<open>
  The classification as a function of the entry's content, and the calls it makes,
  read off \<open>prv_get_segment_type\<close> run on a world that holds this entry.
\<close>

definition type_of_entry :: "collab \<Rightarrow> ConversationEntry \<Rightarrow> SegmentType" where
  "type_of_entry cb en =
     fst (prv_get_segment_type cb NULL \<lparr>heap = [], entries = (\<lambda>_. en), trace = []\<rparr>)"

definition calls_of_classification ::
  "collab \<Rightarrow> ptr \<Rightarrow> ConversationEntry \<Rightarrow> event list" where
  "calls_of_classification cb e en =
     trace (snd (prv_get_segment_type cb e \<lparr>heap = [], entries = (\<lambda>_. en), trace = []\<rparr>))"

text \<open>
  The three switches on \<^verbatim>\<open>data->type\<close> have a case that does something for every tag
  but \<open>SegmentTypeNone\<close>, and for \<open>SegmentTypeMapWidget\<close> only in a build with maps.
\<close>

definition has_view :: "collab \<Rightarrow> SegmentType \<Rightarrow> bool" where
  "has_view cb t =
     (t \<noteq> SegmentTypeNone \<and> (t = SegmentTypeMapWidget \<longrightarrow> ENABLE_FEATURE_MAPS cb))"

text \<open>
  An entry outside the recognized closed set: a type that is none of the seven, or a
  widget whose sub-type is none of the recognized ones (the map sub-type is recognized
  only in a build with maps).
\<close>

definition unrecognized :: "collab \<Rightarrow> ConversationEntry \<Rightarrow> bool" where
  "unrecognized cb en =
     (case entry_type en of
        EntryTypeOther _ \<Rightarrow> True
      | EntryTypeWidget \<Rightarrow>
          (case widget_type (entry_widget en) of
             ConversationWidgetTypeOther _ \<Rightarrow> True
           | ConversationWidgetTypeMap \<Rightarrow> \<not> ENABLE_FEATURE_MAPS cb
           | _ \<Rightarrow> False)
      | _ \<Rightarrow> False)"

definition is_warning :: "event \<Rightarrow> bool" where
  "is_warning ev = (case ev of Call_log APP_LOG_LEVEL_WARNING _ _ \<Rightarrow> True | _ \<Rightarrow> False)"

text \<open>The calls made between two worlds, the later one extending the trace of the earlier.\<close>

definition calls_between :: "world \<Rightarrow> world \<Rightarrow> event list" where
  "calls_between s s' = drop (length (trace s)) (trace s')"

fun created :: "event list \<Rightarrow> (view_kind \<times> ptr) list" where
  "created [] = []"
| "created (Call_create k p # evs) = (k, p) # created evs"
| "created (_ # evs) = created evs"

fun destroyed :: "event list \<Rightarrow> (view_kind \<times> ptr) list" where
  "destroyed [] = []"
| "destroyed (Call_destroy k p # evs) = (k, p) # destroyed evs"
| "destroyed (_ # evs) = destroyed evs"

text \<open>
  A well-formed segment at \<open>p\<close>: a live plain layer with data, whose union cell points
  to a live view of the kind of its tag (or is \<^verbatim>\<open>NULL\<close> under the tag
  \<open>SegmentTypeNone\<close>), and whose label pointer is \<^verbatim>\<open>NULL\<close> or points to a live text layer.
\<close>

definition segment_ok :: "collab \<Rightarrow> world \<Rightarrow> ptr \<Rightarrow> bool" where
  "segment_ok cb s p =
     (case lookup s p of
        None \<Rightarrow> False
      | Some seg \<Rightarrow>
          kind seg = PlainLayer \<and>
          (case data seg of
             None \<Rightarrow> False
           | Some d \<Rightarrow>
               (if has_view cb (type d)
                then (case lookup s (layer d) of
                        None \<Rightarrow> False
                      | Some c \<Rightarrow> kind c = View (type d))
                else type d = SegmentTypeNone \<and> layer d = NULL) \<and>
               (assistant_label_layer d = NULL \<or>
                (case lookup s (assistant_label_layer d) of
                   None \<Rightarrow> False
                 | Some l \<Rightarrow> kind l = TextLayer))))"

text \<open>
  The frame composition: the size of the segment's frame is the size of the frame of
  its child, with \<open>NAME_HEIGHT\<close> added to the height when there is a label.
\<close>

definition frame_composed :: "world \<Rightarrow> ptr \<Rightarrow> bool" where
  "frame_composed s p =
     (case layer_get_data p s of
        None \<Rightarrow> False
      | Some d \<Rightarrow>
          (case (layer_get_frame p s, layer_get_frame (layer d) s) of
             (Some f, Some cf) \<Rightarrow>
               size_h (rect_size f) =
                 size_h (rect_size cf) +
                   (if assistant_label_layer d \<noteq> NULL then NAME_HEIGHT else 0) \<and>
               size_w (rect_size f) = size_w (rect_size cf)
           | _ \<Rightarrow> False))"

text \<open>
  What happens to a constructed segment before it is destroyed: the container updates
  it, the data model changes an entry, the container's layout pass moves it.
\<close>

datatype step = Update | EntryChanged ptr ConversationEntry | Moved GPoint

fun lifetime :: "collab \<Rightarrow> ptr \<Rightarrow> step list \<Rightarrow> world \<Rightarrow> world option" where
  "lifetime cb p [] s = Some s"
| "lifetime cb p (Update # steps) s =
     (case segment_layer_update cb p s of
        None \<Rightarrow> None
      | Some s' \<Rightarrow> lifetime cb p steps s')"
| "lifetime cb p (EntryChanged e en # steps) s =
     lifetime cb p steps (s\<lparr>entries := (entries s)(e := en)\<rparr>)"
| "lifetime cb p (Moved org # steps) s =
     (case layer_get_frame p s of
        None \<Rightarrow> None
      | Some f \<Rightarrow>
          (case layer_set_frame p (MkGRect org (rect_size f)) s of
             None \<Rightarrow> None
           | Some s' \<Rightarrow> lifetime cb p steps s'))"

section \<open>A concrete configuration\<close>

text \<open>
  A build with maps whose views are 44 high when constructed and keep their frame when
  updated, and a world with an empty heap and entries of several types: a map widget
  at 6, a timer widget at 7, a type of no enumerator at 2, Deleted at 3, Prompt at 4,
  Thought at 5, Response elsewhere.
\<close>

definition example_collab :: collab where
  "example_collab =
     \<lparr>ENABLE_FEATURE_MAPS = True,
      create_frame = (\<lambda>t fr en. GRect 0 0 (size_w (rect_size fr)) 44),
      update_frame = (\<lambda>t en fr. fr)\<rparr>"

definition example_entry :: "ptr \<Rightarrow> ConversationEntry" where
  "example_entry e =
     \<lparr>entry_type =
        (if e = 7 \<or> e = 6 then EntryTypeWidget
         else if e = 2 then EntryTypeOther 99
         else if e = 3 then EntryTypeDeleted
         else if e = 4 then EntryTypePrompt
         else if e = 5 then EntryTypeThought
         else EntryTypeResponse),
      entry_widget =
        \<lparr>widget_type =
           (if e = 6 then ConversationWidgetTypeMap else ConversationWidgetTypeTimer)\<rparr>\<rparr>"

definition example_world :: world where
  "example_world = \<lparr>heap = [], entries = example_entry, trace = []\<rparr>"

section \<open>Auxiliary facts\<close>

subsection \<open>Classification and construction\<close>

lemmas accessor_defs = conversation_entry_get_type_def conversation_entry_get_widget_def
  BOBBY_LOG_def emit_def prv_get_segment_type_unknown_def

lemma prv_get_segment_type_eq:
  "prv_get_segment_type cb e s =
     (type_of_entry cb (entries s e),
      s\<lparr>trace := trace s @ calls_of_classification cb e (entries s e)\<rparr>)"
  unfolding prv_get_segment_type_def type_of_entry_def calls_of_classification_def
  by (cases "entry_type (entries s e)"; cases "widget_type (entry_widget (entries s e))")
     (simp_all add: accessor_defs)

lemma type_of_entry_has_view:
  "type_of_entry cb en = SegmentTypeMapWidget \<Longrightarrow> ENABLE_FEATURE_MAPS cb"
  unfolding prv_get_segment_type_def type_of_entry_def
  by (cases "entry_type en"; cases "widget_type (entry_widget en)")
     (simp_all add: accessor_defs split: if_splits)

lemmas view_create_defs = message_layer_create_def info_layer_create_def
  weather_single_day_widget_create_def weather_current_widget_create_def
  weather_multi_day_widget_create_def timer_widget_create_def number_widget_create_def
  map_widget_create_def

lemma create_child_view:
  "has_view cb t \<Longrightarrow> segment_layer_create_child cb l t fr e s =
     (let (c, s') = view_create cb t fr e s in data_assign l (\<lambda>d. d\<lparr>layer := c\<rparr>) s')"
  by (cases t) (simp_all add: segment_layer_create_child_def view_create_defs has_view_def)

lemma create_child_no_view:
  "\<not> has_view cb t \<Longrightarrow> segment_layer_create_child cb l t fr e s = Some s"
  by (cases t) (simp_all add: segment_layer_create_child_def has_view_def)

lemmas heap_defs = alloc_def store_def release_def lookup_def emit_def

lemmas toolkit_defs = blayer_create_with_data_def btext_layer_create_def
  text_layer_get_layer_def layer_get_data_def data_assign_def layer_add_child_def
  text_layer_set_text_def layer_get_frame_def layer_set_frame_def text_layer_destroy_def
  layer_destroy_def view_create_def view_update_def view_destroy_def NULL_def


lemma create_effect:
  fixes cb rect e al s
  defines "n \<equiv> length (heap s)"
  defines "t \<equiv> type_of_entry cb (entries s e)"
  defines "p \<equiv> Suc n"
  defines "lbl \<equiv> (if al then Suc (Suc n) else NULL)"
  defines "c \<equiv> (if has_view cb t then (if al then Suc (Suc (Suc n)) else Suc (Suc n)) else NULL)"
  defines "child_frame \<equiv> (if al then GRect 0 NAME_HEIGHT (size_w (rect_size rect)) (size_h (rect_size rect) - NAME_HEIGHT)
                            else GRect 0 0 (size_w (rect_size rect)) (size_h (rect_size rect)))"
  defines "cf \<equiv> (if has_view cb t then create_frame cb t child_frame (entries s e) else GRectZero)"
  shows "\<exists>s'. segment_layer_create cb rect e al s = Some (p, s')
     \<and> lookup s' p = Some \<lparr>frame = final_frame (origin rect) (rect_size cf) lbl,
           children = (if al then [lbl] else []) @ (if has_view cb t then [c] else []),
           data = Some \<lparr>entry = e, assistant_label_layer = lbl, type = t, layer = c\<rparr>,
           label_text = [], kind = PlainLayer, view_entry = NULL\<rparr>
     \<and> (al \<longrightarrow> lookup s' lbl = Some \<lparr>frame = GRect 5 0 (size_w (rect_size rect)) NAME_HEIGHT,
           children = [], data = None, label_text = ''Bobby'', kind = TextLayer, view_entry = NULL\<rparr>)
     \<and> (has_view cb t \<longrightarrow> lookup s' c = Some \<lparr>frame = cf, children = [], data = None,
           label_text = [], kind = View t, view_entry = e\<rparr>)
     \<and> (\<forall>q. q \<noteq> p \<and> q \<noteq> lbl \<and> q \<noteq> c \<longrightarrow> lookup s' q = lookup s q)
     \<and> entries s' = entries s
     \<and> trace s' = trace s @ [Call_create PlainLayer p] @ calls_of_classification cb e (entries s e)
          @ (if al then [Call_create TextLayer lbl] else [])
          @ (if has_view cb t then [Call_create (View t) c] else [])"
proof (cases al; cases "has_view cb t")
  assume "al" "has_view cb t"
  then show ?thesis
    unfolding n_def t_def p_def lbl_def c_def child_frame_def cf_def
    by (auto simp add: segment_layer_create_def segment_layer_create_label_def prv_get_segment_type_eq
     create_child_view toolkit_defs heap_defs Let_def nth_append list_update_append)
next
  assume "al" "\<not> has_view cb t"
  then show ?thesis
    unfolding n_def t_def p_def lbl_def c_def child_frame_def cf_def
    by (auto simp add: segment_layer_create_def segment_layer_create_label_def prv_get_segment_type_eq
     create_child_no_view toolkit_defs heap_defs Let_def nth_append list_update_append)
next
  assume "\<not> al" "has_view cb t"
  then show ?thesis
    unfolding n_def t_def p_def lbl_def c_def child_frame_def cf_def
    by (auto simp add: segment_layer_create_def segment_layer_create_label_def prv_get_segment_type_eq
     create_child_view toolkit_defs heap_defs Let_def nth_append list_update_append)
next
  assume "\<not> al" "\<not> has_view cb t"
  then show ?thesis
    unfolding n_def t_def p_def lbl_def c_def child_frame_def cf_def
    by (auto simp add: segment_layer_create_def segment_layer_create_label_def prv_get_segment_type_eq
     create_child_no_view toolkit_defs heap_defs Let_def nth_append list_update_append)
qed


subsection \<open>Heap primitives\<close>

lemma lookup_emit [simp]: "lookup (emit ev s) = lookup s"
  by (rule ext) (simp add: emit_def lookup_def)

lemma entries_emit [simp]: "entries (emit ev s) = entries s"
  by (simp add: emit_def)

lemma trace_emit [simp]: "trace (emit ev s) = trace s @ [ev]"
  by (simp add: emit_def)

lemma lookup_entries_update [simp]: "lookup (s\<lparr>entries := en\<rparr>) = lookup s"
  by (rule ext) (simp add: lookup_def)

lemma store_effect:
  assumes "lookup s p = Some x"
  shows "\<exists>s'. store p obj s = Some s' \<and> lookup s' = (lookup s)(p \<mapsto> obj)
           \<and> entries s' = entries s \<and> trace s' = trace s"
proof -
  from assms have p: "0 < p" "p \<le> length (heap s)"
    by (auto simp: lookup_def split: if_splits)
  have "lookup (s\<lparr>heap := (heap s)[p - 1 := Some obj]\<rparr>) q = ((lookup s)(p \<mapsto> obj)) q" for q
    using p by (auto simp: lookup_def nth_list_update)
  then have "lookup (s\<lparr>heap := (heap s)[p - 1 := Some obj]\<rparr>) = (lookup s)(p \<mapsto> obj)"
    by (rule ext)
  with assms show ?thesis by (simp add: store_def)
qed

lemma release_effect:
  assumes "lookup s p = Some x"
  shows "\<exists>s'. release p s = Some s' \<and> lookup s' = (lookup s)(p := None)
           \<and> entries s' = entries s \<and> trace s' = trace s"
proof -
  from assms have p: "0 < p" "p \<le> length (heap s)"
    by (auto simp: lookup_def split: if_splits)
  have "lookup (s\<lparr>heap := (heap s)[p - 1 := None]\<rparr>) q = ((lookup s)(p := None)) q" for q
    using p by (auto simp: lookup_def nth_list_update)
  then have "lookup (s\<lparr>heap := (heap s)[p - 1 := None]\<rparr>) = (lookup s)(p := None)"
    by (rule ext)
  with assms show ?thesis by (simp add: release_def)
qed

lemma lookup_NULL [simp]: "lookup s NULL = None"
  by (simp add: lookup_def NULL_def)

subsection \<open>Toolkit\<close>

lemma layer_get_data_eq: "lookup s p = Some x \<Longrightarrow> layer_get_data p s = data x"
  by (simp add: layer_get_data_def)

lemma layer_get_frame_eq: "lookup s p = Some x \<Longrightarrow> layer_get_frame p s = Some (frame x)"
  by (auto simp add: layer_get_frame_def)

lemma layer_get_frame_NULL [simp]: "layer_get_frame NULL s = Some GRectZero"
  by (simp add: layer_get_frame_def)

lemma layer_set_frame_effect:
  assumes "lookup s p = Some x"
  shows "\<exists>s'. layer_set_frame p r s = Some s' \<and> lookup s' = (lookup s)(p \<mapsto> x\<lparr>frame := r\<rparr>)
           \<and> entries s' = entries s \<and> trace s' = trace s"
  using store_effect [OF assms, of "x\<lparr>frame := r\<rparr>"] assms
  by (simp add: layer_set_frame_def)

lemma view_update_effect:
  assumes "lookup s c = Some x" "kind x = View t"
  shows "\<exists>s'. view_update cb t c s = Some s'
           \<and> lookup s' = (lookup s)(c \<mapsto> x\<lparr>frame := update_frame cb t (entries s (view_entry x)) (frame x)\<rparr>)
           \<and> entries s' = entries s \<and> trace s' = trace s @ [Call_update t c]"
proof -
  have "lookup (emit (Call_update t c) s) c = Some x" using assms by simp
  from store_effect [OF this] assms show ?thesis
    by (simp add: view_update_def)
qed

lemma view_destroy_effect:
  assumes "lookup s c = Some x" "kind x = View t"
  shows "\<exists>s'. view_destroy t c s = Some s' \<and> lookup s' = (lookup s)(c := None)
           \<and> entries s' = entries s \<and> trace s' = trace s @ [Call_destroy (View t) c]"
proof -
  have "lookup (emit (Call_destroy (View t) c) s) c = Some x" using assms by simp
  from release_effect [OF this] assms show ?thesis
    by (simp add: view_destroy_def)
qed

lemma text_layer_destroy_effect:
  assumes "lookup s c = Some x" "kind x = TextLayer"
  shows "\<exists>s'. text_layer_destroy c s = Some s' \<and> lookup s' = (lookup s)(c := None)
           \<and> entries s' = entries s \<and> trace s' = trace s @ [Call_destroy TextLayer c]"
proof -
  have "lookup (emit (Call_destroy TextLayer c) s) c = Some x" using assms by simp
  from release_effect [OF this] assms show ?thesis
    by (simp add: text_layer_destroy_def)
qed

lemma layer_destroy_effect:
  assumes "lookup s c = Some x" "kind x = PlainLayer"
  shows "\<exists>s'. layer_destroy c s = Some s' \<and> lookup s' = (lookup s)(c := None)
           \<and> entries s' = entries s \<and> trace s' = trace s @ [Call_destroy PlainLayer c]"
proof -
  have "lookup (emit (Call_destroy PlainLayer c) s) c = Some x" using assms by simp
  from release_effect [OF this] assms show ?thesis
    by (simp add: layer_destroy_def)
qed

subsection \<open>The switches\<close>

lemmas view_update_defs = message_layer_update_def info_layer_update_def
  weather_single_day_widget_update_def weather_current_widget_update_def
  weather_multi_day_widget_update_def timer_widget_update_def number_widget_update_def
  map_widget_update_def

lemmas view_destroy_defs = message_layer_destroy_def info_layer_destroy_def
  weather_single_day_widget_destroy_def weather_current_widget_destroy_def
  weather_multi_day_widget_destroy_def timer_widget_destroy_def number_widget_destroy_def
  map_widget_destroy_def

lemma update_child_view:
  "has_view cb (type d) \<Longrightarrow>
   segment_layer_update_child cb d s = view_update cb (type d) (layer d) s"
  by (cases "type d") (simp_all add: segment_layer_update_child_def view_update_defs has_view_def)

lemma update_child_no_view:
  "\<not> has_view cb (type d) \<Longrightarrow> segment_layer_update_child cb d s = Some s"
  by (cases "type d") (simp_all add: segment_layer_update_child_def has_view_def)

lemma destroy_child_view:
  "has_view cb (type d) \<Longrightarrow>
   segment_layer_destroy_child cb d s = view_destroy (type d) (layer d) s"
  by (cases "type d") (simp_all add: segment_layer_destroy_child_def view_destroy_defs has_view_def)

lemma destroy_child_no_view:
  "\<not> has_view cb (type d) \<Longrightarrow> segment_layer_destroy_child cb d s = Some s"
  by (cases "type d") (simp_all add: segment_layer_destroy_child_def has_view_def)

subsection \<open>Well-formed segments\<close>

lemma segment_ok_data:
  "segment_ok cb s p \<Longrightarrow> \<exists>seg d. lookup s p = Some seg \<and> data seg = Some d"
  by (auto simp: segment_ok_def split: option.splits)

lemma segment_ok_kind:
  "segment_ok cb s p \<Longrightarrow> lookup s p = Some seg \<Longrightarrow> kind seg = PlainLayer"
  by (auto simp: segment_ok_def split: option.splits)

lemma segment_ok_view:
  "segment_ok cb s p \<Longrightarrow> lookup s p = Some seg \<Longrightarrow> data seg = Some d \<Longrightarrow>
   has_view cb (type d) \<Longrightarrow> \<exists>c. lookup s (layer d) = Some c \<and> kind c = View (type d)"
  by (auto simp: segment_ok_def split: option.splits)

lemma segment_ok_no_view:
  "segment_ok cb s p \<Longrightarrow> lookup s p = Some seg \<Longrightarrow> data seg = Some d \<Longrightarrow>
   \<not> has_view cb (type d) \<Longrightarrow> type d = SegmentTypeNone \<and> layer d = NULL"
  by (auto simp: segment_ok_def split: option.splits)

lemma segment_ok_label:
  "segment_ok cb s p \<Longrightarrow> lookup s p = Some seg \<Longrightarrow> data seg = Some d \<Longrightarrow>
   assistant_label_layer d \<noteq> NULL \<Longrightarrow>
   \<exists>l. lookup s (assistant_label_layer d) = Some l \<and> kind l = TextLayer"
  by (auto simp: segment_ok_def split: option.splits)

lemma update_effect:
  assumes ok: "segment_ok cb s p" and seg: "lookup s p = Some seg" and d: "data seg = Some d"
  shows "\<exists>s' cf. segment_layer_update cb p s = Some s'
     \<and> layer_get_frame (layer d) s' = Some cf
     \<and> (if has_view cb (type d)
         then \<exists>c. lookup s (layer d) = Some c
                \<and> cf = update_frame cb (type d) (entries s (view_entry c)) (frame c)
         else cf = GRectZero)
     \<and> lookup s' p = Some (seg\<lparr>frame := final_frame (origin (frame seg)) (rect_size cf)
                                         (assistant_label_layer d)\<rparr>)
     \<and> (\<forall>q. q \<noteq> p \<and> q \<noteq> layer d \<longrightarrow> lookup s' q = lookup s q)
     \<and> (\<forall>q. map_option kind (lookup s' q) = map_option kind (lookup s q))
     \<and> (\<forall>q. map_option view_entry (lookup s' q) = map_option view_entry (lookup s q))
     \<and> entries s' = entries s
     \<and> trace s' = trace s @ (if has_view cb (type d) then [Call_update (type d) (layer d)] else [])"
proof (cases "has_view cb (type d)")
  case True
  from segment_ok_view [OF ok seg d True]
  obtain c where c: "lookup s (layer d) = Some c" "kind c = View (type d)"
    by blast
  from segment_ok_kind [OF ok seg] have pc: "layer d \<noteq> p" using c seg by auto
  from view_update_effect [OF c, of cb] obtain s1 where s1:
    "view_update cb (type d) (layer d) s = Some s1"
    "lookup s1 = (lookup s)(layer d \<mapsto> c\<lparr>frame := update_frame cb (type d) (entries s (view_entry c)) (frame c)\<rparr>)"
    "entries s1 = entries s" "trace s1 = trace s @ [Call_update (type d) (layer d)]"
    by blast
  have seg1: "lookup s1 p = Some seg" using s1 pc seg by simp
  from layer_set_frame_effect [OF seg1] obtain s2 where s2:
    "layer_set_frame p (final_frame (origin (frame seg)) (rect_size (update_frame cb (type d) (entries s (view_entry c)) (frame c))) (assistant_label_layer d)) s1 = Some s2"
    "lookup s2 = (lookup s1)(p \<mapsto> seg\<lparr>frame := final_frame (origin (frame seg)) (rect_size (update_frame cb (type d) (entries s (view_entry c)) (frame c))) (assistant_label_layer d)\<rparr>)"
    "entries s2 = entries s1" "trace s2 = trace s1"
    by blast
  have nn: "layer d \<noteq> NULL" using c by auto
  show ?thesis
    using True seg d c s1 s2 seg1 pc nn
    by (auto simp: segment_layer_update_def update_child_view layer_get_data_eq layer_get_frame_def)
next
  case False
  from segment_ok_no_view [OF ok seg d False]
  have n: "type d = SegmentTypeNone" "layer d = NULL"
    by simp_all
  from layer_set_frame_effect [OF seg] obtain s2 where s2:
    "layer_set_frame p (final_frame (origin (frame seg)) (rect_size GRectZero) (assistant_label_layer d)) s = Some s2"
    "lookup s2 = (lookup s)(p \<mapsto> seg\<lparr>frame := final_frame (origin (frame seg)) (rect_size GRectZero) (assistant_label_layer d)\<rparr>)"
    "entries s2 = entries s" "trace s2 = trace s"
    by blast
  have pn: "p \<noteq> NULL" using seg by auto
  show ?thesis
    using False seg d n s2 pn
    by (auto simp: segment_layer_update_def update_child_no_view layer_get_data_eq layer_get_frame_def)
qed


lemma segment_ok_cong:
  assumes k: "\<And>q. map_option kind (lookup s' q) = map_option kind (lookup s q)"
    and d: "map_option data (lookup s' p) = map_option data (lookup s p)"
  shows "segment_ok cb s' p = segment_ok cb s p"
proof -
  have live: "(lookup s' q = None) = (lookup s q = None)" for q
    using k [of q] by (cases "lookup s' q"; cases "lookup s q") simp_all
  have kq: "lookup s' q = Some x \<Longrightarrow> lookup s q = Some y \<Longrightarrow> kind x = kind y" for q x y
    using k [of q] by simp
  have dq: "lookup s' p = Some x \<Longrightarrow> lookup s p = Some y \<Longrightarrow> data x = data y" for x y
    using d by simp
  show ?thesis
  proof (cases "lookup s p")
    case None
    with live [of p] show ?thesis by (simp add: segment_ok_def)
  next
    case (Some seg)
    with live [of p] obtain seg' where seg': "lookup s' p = Some seg'" by auto
    have dd: "data seg' = data seg" and ks: "kind seg' = kind seg"
      using dq [OF seg' Some] kq [OF seg' Some] by simp_all
    show ?thesis
    proof (cases "data seg")
      case None
      with Some seg' dd show ?thesis by (simp add: segment_ok_def)
    next
      case (Some dat)
      have c: "(case lookup s' q of None \<Rightarrow> False | Some c \<Rightarrow> kind c = k)
             = (case lookup s q of None \<Rightarrow> False | Some c \<Rightarrow> kind c = k)" for q k
      proof (cases "lookup s' q")
        case None
        with live [of q] show ?thesis by simp
      next
        case (Some x)
        with live [of q] obtain y where y: "lookup s q = Some y" by auto
        from kq [OF Some y] Some y show ?thesis by simp
      qed
      note v = c [of "View (type dat)" "layer dat"]
      note l = c [of TextLayer "assistant_label_layer dat"]
      from Some \<open>lookup s p = Some seg\<close> seg' dd ks v l show ?thesis
        by (simp add: segment_ok_def)
    qed
  qed
qed

lemma update_preserves_ok:
  assumes ok: "segment_ok cb s p" and u: "segment_layer_update cb p s = Some s'"
  shows "segment_ok cb s' p"
proof -
  from segment_ok_data [OF ok] obtain seg d where seg: "lookup s p = Some seg" "data seg = Some d"
    by blast
  from update_effect [OF ok seg] u obtain x where
    k: "\<forall>q. map_option kind (lookup s' q) = map_option kind (lookup s q)"
    and p: "lookup s' p = Some (seg\<lparr>frame := x\<rparr>)"
    by auto
  have "map_option data (lookup s' p) = map_option data (lookup s p)"
    using p seg by simp
  with k show ?thesis using segment_ok_cong [of s' s p cb] ok by simp
qed

lemma lifetime_effect:
  assumes "segment_ok cb s p" "lookup s p = Some seg" "data seg = Some d"
  shows "\<exists>s' seg'. lifetime cb p steps s = Some s' \<and> segment_ok cb s' p
     \<and> lookup s' p = Some seg' \<and> data seg' = Some d
     \<and> (\<forall>q. q \<noteq> p \<and> q \<noteq> layer d \<longrightarrow> lookup s' q = lookup s q)
     \<and> (\<forall>q. map_option kind (lookup s' q) = map_option kind (lookup s q))
     \<and> (\<exists>evs. trace s' = trace s @ evs \<and> set evs \<subseteq> {Call_update (type d) (layer d)})"
  using assms
proof (induction steps arbitrary: s seg)
  case Nil
  then show ?case by simp
next
  case (Cons st steps)
  show ?case
  proof (cases st)
    case Update
    from update_effect [OF Cons.prems] obtain s1 where s1:
      "segment_layer_update cb p s = Some s1"
      "\<exists>seg1. lookup s1 p = Some seg1 \<and> data seg1 = Some d"
      "\<forall>q. q \<noteq> p \<and> q \<noteq> layer d \<longrightarrow> lookup s1 q = lookup s q"
      "\<forall>q. map_option kind (lookup s1 q) = map_option kind (lookup s q)"
      "trace s1 = trace s @ (if has_view cb (type d) then [Call_update (type d) (layer d)] else [])"
      using Cons.prems(3) by auto
    from s1(2) obtain seg1 where seg1: "lookup s1 p = Some seg1" "data seg1 = Some d" by blast
    have ok1: "segment_ok cb s1 p" using update_preserves_ok [OF Cons.prems(1) s1(1)] .
    from Cons.IH [OF ok1 seg1] obtain s' seg' evs where r:
      "lifetime cb p steps s1 = Some s'" "segment_ok cb s' p"
      "lookup s' p = Some seg'" "data seg' = Some d"
      "\<forall>q. q \<noteq> p \<and> q \<noteq> layer d \<longrightarrow> lookup s' q = lookup s1 q"
      "\<forall>q. map_option kind (lookup s' q) = map_option kind (lookup s1 q)"
      "trace s' = trace s1 @ evs" "set evs \<subseteq> {Call_update (type d) (layer d)}"
      by blast
    have tr: "trace s' = trace s @ ((if has_view cb (type d) then [Call_update (type d) (layer d)] else []) @ evs)"
      using r(7) s1(5) by simp
    have sub: "set ((if has_view cb (type d) then [Call_update (type d) (layer d)] else []) @ evs)
                 \<subseteq> {Call_update (type d) (layer d)}"
      using r(8) by auto
    have 1: "lifetime cb p (st # steps) s = Some s'" using Update s1(1) r(1) by simp
    have 5: "\<forall>q. q \<noteq> p \<and> q \<noteq> layer d \<longrightarrow> lookup s' q = lookup s q"
      using r(5) s1(3) by simp
    have 6: "\<forall>q. map_option kind (lookup s' q) = map_option kind (lookup s q)"
      using r(6) s1(4) by simp
    show ?thesis
    proof (intro exI conjI)
      show "lifetime cb p (st # steps) s = Some s'" by (fact 1)
      show "segment_ok cb s' p" by (fact r(2))
      show "lookup s' p = Some seg'" by (fact r(3))
      show "data seg' = Some d" by (fact r(4))
      show "\<forall>q. q \<noteq> p \<and> q \<noteq> layer d \<longrightarrow> lookup s' q = lookup s q" by (fact 5)
      show "\<forall>q. map_option kind (lookup s' q) = map_option kind (lookup s q)" by (fact 6)
      show "trace s' = trace s @ ((if has_view cb (type d) then [Call_update (type d) (layer d)] else []) @ evs)"
        by (fact tr)
      show "set ((if has_view cb (type d) then [Call_update (type d) (layer d)] else []) @ evs)
                 \<subseteq> {Call_update (type d) (layer d)}" by (fact sub)
    qed
  next
    case (EntryChanged e en)
    let ?s1 = "s\<lparr>entries := (entries s)(e := en)\<rparr>"
    have ok1: "segment_ok cb ?s1 p"
      using segment_ok_cong [of ?s1 s p cb] Cons.prems(1) by simp
    have seg1: "lookup ?s1 p = Some seg" using Cons.prems(2) by simp
    from Cons.IH [OF ok1 seg1 Cons.prems(3)] EntryChanged show ?thesis
      by simp
  next
    case (Moved org)
    have pn: "p \<noteq> NULL" using Cons.prems(2) by auto
    from layer_set_frame_effect [OF Cons.prems(2), of "MkGRect org (rect_size (frame seg))"]
    obtain s1 where s1:
      "layer_set_frame p (MkGRect org (rect_size (frame seg))) s = Some s1"
      "lookup s1 = (lookup s)(p \<mapsto> seg\<lparr>frame := MkGRect org (rect_size (frame seg))\<rparr>)"
      "entries s1 = entries s" "trace s1 = trace s"
      by blast
    have seg1: "lookup s1 p = Some (seg\<lparr>frame := MkGRect org (rect_size (frame seg))\<rparr>)"
      using s1 by simp
    have d1: "data (seg\<lparr>frame := MkGRect org (rect_size (frame seg))\<rparr>) = Some d"
      using Cons.prems(3) by simp
    have ok1: "segment_ok cb s1 p"
      using segment_ok_cong [of s1 s p cb] s1(2) Cons.prems by simp
    from Cons.IH [OF ok1 seg1 d1] obtain s' seg' evs where r:
      "lifetime cb p steps s1 = Some s'" "segment_ok cb s' p"
      "lookup s' p = Some seg'" "data seg' = Some d"
      "\<forall>q. q \<noteq> p \<and> q \<noteq> layer d \<longrightarrow> lookup s' q = lookup s1 q"
      "\<forall>q. map_option kind (lookup s' q) = map_option kind (lookup s1 q)"
      "trace s' = trace s1 @ evs" "set evs \<subseteq> {Call_update (type d) (layer d)}"
      by blast
    have k: "\<forall>q. map_option kind (lookup s' q) = map_option kind (lookup s q)"
      using r(6) s1(2) Cons.prems(2) by simp
    have 1: "lifetime cb p (st # steps) s = Some s'"
      using Moved s1(1) r(1) pn Cons.prems(2) by (simp add: layer_get_frame_eq)
    have 5: "\<forall>q. q \<noteq> p \<and> q \<noteq> layer d \<longrightarrow> lookup s' q = lookup s q"
      using r(5) s1(2) by simp
    have 7: "trace s' = trace s @ evs" using r(7) s1(4) by simp
    show ?thesis
    proof (intro exI conjI)
      show "lifetime cb p (st # steps) s = Some s'" by (fact 1)
      show "segment_ok cb s' p" by (fact r(2))
      show "lookup s' p = Some seg'" by (fact r(3))
      show "data seg' = Some d" by (fact r(4))
      show "\<forall>q. q \<noteq> p \<and> q \<noteq> layer d \<longrightarrow> lookup s' q = lookup s q" by (fact 5)
      show "\<forall>q. map_option kind (lookup s' q) = map_option kind (lookup s q)" by (fact k)
      show "trace s' = trace s @ evs" by (fact 7)
      show "set evs \<subseteq> {Call_update (type d) (layer d)}" by (fact r(8))
    qed
  qed
qed


subsection \<open>Destruction\<close>

lemma destroy_effect:
  assumes ok: "segment_ok cb s p" and seg: "lookup s p = Some seg" and d: "data seg = Some d"
  shows "\<exists>s'. segment_layer_destroy cb p s = Some s'
     \<and> (\<forall>q. lookup s' q =
            (if q = p \<or> (has_view cb (type d) \<and> q = layer d)
                \<or> (assistant_label_layer d \<noteq> NULL \<and> q = assistant_label_layer d)
             then None else lookup s q))
     \<and> entries s' = entries s
     \<and> trace s' = trace s
          @ [Call_log APP_LOG_LEVEL_INFO ''destroying SegmentLayer %p.'' (ArgPtr p)]
          @ (if has_view cb (type d) then [Call_destroy (View (type d)) (layer d)] else [])
          @ (if assistant_label_layer d \<noteq> NULL
             then [Call_destroy TextLayer (assistant_label_layer d)] else [])
          @ [Call_destroy PlainLayer p]"
proof -
  let ?s1 = "BOBBY_LOG APP_LOG_LEVEL_INFO ''destroying SegmentLayer %p.'' (ArgPtr p) s"
  let ?c = "layer d" and ?l = "assistant_label_layer d" and ?t = "type d"
  have s1: "lookup ?s1 = lookup s" "entries ?s1 = entries s"
    "trace ?s1 = trace s @ [Call_log APP_LOG_LEVEL_INFO ''destroying SegmentLayer %p.'' (ArgPtr p)]"
    by (simp_all add: BOBBY_LOG_def)
  have kp: "kind seg = PlainLayer" by (rule segment_ok_kind [OF ok seg])
  have "\<exists>s2. segment_layer_destroy_child cb d ?s1 = Some s2
      \<and> (\<forall>q. lookup s2 q = (if has_view cb ?t \<and> q = ?c then None else lookup s q))
      \<and> entries s2 = entries s
      \<and> trace s2 = trace ?s1 @ (if has_view cb ?t then [Call_destroy (View ?t) ?c] else [])"
  proof (cases "has_view cb ?t")
    case True
    from segment_ok_view [OF ok seg d True]
    obtain c where c: "lookup ?s1 ?c = Some c" "kind c = View ?t" using s1 by auto
    from view_destroy_effect [OF c] obtain s2 where
      "view_destroy ?t ?c ?s1 = Some s2" "lookup s2 = (lookup ?s1)(?c := None)"
      "entries s2 = entries ?s1" "trace s2 = trace ?s1 @ [Call_destroy (View ?t) ?c]"
      by blast
    with True s1 show ?thesis
      by (simp add: destroy_child_view)
  next
    case False
    then show ?thesis using s1 by (simp add: destroy_child_no_view)
  qed
  then obtain s2 where s2: "segment_layer_destroy_child cb d ?s1 = Some s2"
      "\<forall>q. lookup s2 q = (if has_view cb ?t \<and> q = ?c then None else lookup s q)"
      "entries s2 = entries s"
      "trace s2 = trace ?s1 @ (if has_view cb ?t then [Call_destroy (View ?t) ?c] else [])"
    by blast
  have pc: "has_view cb ?t \<Longrightarrow> ?c \<noteq> p"
    using segment_ok_view [OF ok seg d] seg kp by auto
  have seg2: "lookup s2 p = Some seg" using s2(2) pc seg by auto
  have "\<exists>s3. (if ?l \<noteq> NULL then text_layer_destroy ?l s2 else Some s2) = Some s3
      \<and> (\<forall>q. lookup s3 q = (if ?l \<noteq> NULL \<and> q = ?l then None else lookup s2 q))
      \<and> entries s3 = entries s
      \<and> trace s3 = trace s2 @ (if ?l \<noteq> NULL then [Call_destroy TextLayer ?l] else [])"
  proof (cases "?l \<noteq> NULL")
    case True
    from segment_ok_label [OF ok seg d True]
    obtain l where l: "lookup s ?l = Some l" "kind l = TextLayer" by blast
    have "?l \<noteq> ?c \<or> \<not> has_view cb ?t"
      using segment_ok_view [OF ok seg d] l by auto
    then have l2: "lookup s2 ?l = Some l" using s2(2) l by auto
    from text_layer_destroy_effect [OF l2 l(2)] obtain s3 where
      "text_layer_destroy ?l s2 = Some s3" "lookup s3 = (lookup s2)(?l := None)"
      "entries s3 = entries s2" "trace s3 = trace s2 @ [Call_destroy TextLayer ?l]"
      by blast
    with True s2(3) show ?thesis
      by simp
  next
    case False
    then show ?thesis using s2 by simp
  qed
  then obtain s3 where s3: "(if ?l \<noteq> NULL then text_layer_destroy ?l s2 else Some s2) = Some s3"
      "\<forall>q. lookup s3 q = (if ?l \<noteq> NULL \<and> q = ?l then None else lookup s2 q)"
      "entries s3 = entries s"
      "trace s3 = trace s2 @ (if ?l \<noteq> NULL then [Call_destroy TextLayer ?l] else [])"
    by blast
  have pl: "?l \<noteq> NULL \<Longrightarrow> ?l \<noteq> p"
    using segment_ok_label [OF ok seg d] seg kp by auto
  have seg3: "lookup s3 p = Some seg" using s3(2) pl seg2 by auto
  from layer_destroy_effect [OF seg3 kp] obtain s4 where s4:
    "layer_destroy p s3 = Some s4" "lookup s4 = (lookup s3)(p := None)"
    "entries s4 = entries s3" "trace s4 = trace s3 @ [Call_destroy PlainLayer p]"
    by blast
  have d1: "layer_get_data p ?s1 = Some d" using seg d s1 by (simp add: layer_get_data_def)
  have d2: "layer_get_data p s2 = Some d" using seg2 d by (simp add: layer_get_data_def)
  have run: "segment_layer_destroy cb p s = Some s4"
    using d1 s2(1) d2 s3(1) s4(1) by (simp add: segment_layer_destroy_def)
  have lk: "\<forall>q. lookup s4 q =
            (if q = p \<or> (has_view cb ?t \<and> q = ?c) \<or> (?l \<noteq> NULL \<and> q = ?l)
             then None else lookup s q)"
    using s4(2) s3(2) s2(2) by simp
  have tr: "trace s4 = trace s
          @ [Call_log APP_LOG_LEVEL_INFO ''destroying SegmentLayer %p.'' (ArgPtr p)]
          @ (if has_view cb ?t then [Call_destroy (View ?t) ?c] else [])
          @ (if ?l \<noteq> NULL then [Call_destroy TextLayer ?l] else [])
          @ [Call_destroy PlainLayer p]"
    using s4(4) s3(4) s2(4) s1(3) by simp
  show ?thesis using run lk tr s4(3) s3(3) by simp
qed


subsection \<open>After construction\<close>

lemma lookup_fresh: "length (heap s) < q \<Longrightarrow> lookup s q = None"
  by (simp add: lookup_def)

lemma lookup_0 [simp]: "lookup s 0 = None"
  by (simp add: lookup_def)

lemma create_total: "\<exists>p s'. segment_layer_create cb rect e al s = Some (p, s')"
  using create_effect [of cb rect e al s] by blast

lemma create_data:
  assumes "segment_layer_create cb rect e al s = Some (p, s')"
  shows "\<exists>seg d. lookup s' p = Some seg \<and> data seg = Some d \<and> kind seg = PlainLayer
      \<and> entry d = e \<and> type d = type_of_entry cb (entries s e)
      \<and> (assistant_label_layer d \<noteq> NULL) = al
      \<and> (layer d \<noteq> NULL) = has_view cb (type d)
      \<and> children seg = (if al then [assistant_label_layer d] else [])
                        @ (if has_view cb (type d) then [layer d] else [])
      \<and> lookup s p = None \<and> lookup s (assistant_label_layer d) = None
      \<and> lookup s (layer d) = None
      \<and> p \<noteq> assistant_label_layer d \<and> p \<noteq> layer d
      \<and> (al \<and> has_view cb (type d) \<longrightarrow> assistant_label_layer d \<noteq> layer d)"
  using create_effect [of cb rect e al s] assms
  by (cases al; cases "has_view cb (type_of_entry cb (entries s e))")
     (auto simp: NULL_def lookup_fresh)

lemma create_cells:
  assumes "segment_layer_create cb rect e al s = Some (p, s')"
    and "lookup s' p = Some seg" and "data seg = Some d"
  shows "(al \<longrightarrow> lookup s' (assistant_label_layer d) =
              Some \<lparr>frame = GRect 5 0 (size_w (rect_size rect)) NAME_HEIGHT, children = [],
                    data = None, label_text = ''Bobby'', kind = TextLayer, view_entry = NULL\<rparr>)
      \<and> (has_view cb (type d) \<longrightarrow> lookup s' (layer d) =
              Some \<lparr>frame = create_frame cb (type d)
                              (if al then GRect 0 NAME_HEIGHT (size_w (rect_size rect))
                                            (size_h (rect_size rect) - NAME_HEIGHT)
                               else GRect 0 0 (size_w (rect_size rect)) (size_h (rect_size rect)))
                              (entries s e),
                    children = [], data = None, label_text = [], kind = View (type d),
                    view_entry = e\<rparr>)
      \<and> (\<forall>q. q \<noteq> p \<and> q \<noteq> assistant_label_layer d \<and> q \<noteq> layer d \<longrightarrow> lookup s' q = lookup s q)
      \<and> entries s' = entries s
      \<and> (\<exists>cf. layer_get_frame (layer d) s' = Some cf
             \<and> frame seg = final_frame (origin rect) (rect_size cf) (assistant_label_layer d))"
  using create_effect [of cb rect e al s] assms
  by (cases al; cases "has_view cb (type_of_entry cb (entries s e))")
     (clarsimp simp: NULL_def layer_get_frame_def)+

lemma create_trace:
  assumes "segment_layer_create cb rect e al s = Some (p, s')"
    and "lookup s' p = Some seg" and "data seg = Some d"
  shows "trace s' = trace s @ [Call_create PlainLayer p]
          @ calls_of_classification cb e (entries s e)
          @ (if al then [Call_create TextLayer (assistant_label_layer d)] else [])
          @ (if has_view cb (type d) then [Call_create (View (type d)) (layer d)] else [])"
  using create_effect [of cb rect e al s] assms
  by (cases al; cases "has_view cb (type_of_entry cb (entries s e))") auto

lemma create_ok:
  assumes "segment_layer_create cb rect e al s = Some (p, s')"
  shows "segment_ok cb s' p"
proof -
  from create_data [OF assms] obtain seg d where sd:
    "lookup s' p = Some seg" "data seg = Some d" "kind seg = PlainLayer"
    "(assistant_label_layer d \<noteq> NULL) = al" "(layer d \<noteq> NULL) = has_view cb (type d)"
    "type d = type_of_entry cb (entries s e)"
    by blast
  have nv: "\<not> has_view cb (type d) \<Longrightarrow> type d = SegmentTypeNone"
    using type_of_entry_has_view [of cb "entries s e"] sd(6) by (auto simp: has_view_def)
  from create_cells [OF assms sd(1,2)] sd(1-5) nv show ?thesis
    by (auto simp: segment_ok_def)
qed

subsection \<open>Facts about classification and reached segments\<close>

lemmas classification_defs = prv_get_segment_type_def accessor_defs

lemma example_entry_simps:
  "entry_type (entries example_world 7) = EntryTypeWidget"
  "widget_type (entry_widget (entries example_world 7)) = ConversationWidgetTypeTimer"
  "entry_type (entries example_world 2) = EntryTypeOther 99"
  "entry_type (entries example_world 3) = EntryTypeDeleted"
  "entry_type (entries example_world 4) = EntryTypePrompt"
  "entry_type (entries example_world 5) = EntryTypeThought"
  "entry_type (entries example_world 6) = EntryTypeWidget"
  "widget_type (entry_widget (entries example_world 6)) = ConversationWidgetTypeMap"
  "ENABLE_FEATURE_MAPS example_collab"
  by (simp_all add: example_world_def example_entry_def example_collab_def)

lemma widget_type_of_variant:
  assumes "entry_type en = EntryTypeWidget" "type_of_entry cb en \<noteq> SegmentTypeNone"
  shows "widget_type (entry_widget en) =
     (case type_of_entry cb en of
        SegmentTypeWeatherSingleDayWidget \<Rightarrow> ConversationWidgetTypeWeatherSingleDay
      | SegmentTypeWeatherCurrentWidget \<Rightarrow> ConversationWidgetTypeWeatherCurrent
      | SegmentTypeWeatherMultiDayWidget \<Rightarrow> ConversationWidgetTypeWeatherMultiDay
      | SegmentTypeTimerWidget \<Rightarrow> ConversationWidgetTypeTimer
      | SegmentTypeNumberWidget \<Rightarrow> ConversationWidgetTypeNumber
      | SegmentTypeMapWidget \<Rightarrow> ConversationWidgetTypeMap
      | _ \<Rightarrow> ConversationWidgetTypeTimer)"
  using assms unfolding type_of_entry_def
  by (cases "widget_type (entry_widget en)")
     (simp_all add: classification_defs split: if_splits)

lemma type_of_entry_widget_inj:
  assumes "entry_type en = EntryTypeWidget" "entry_type en' = EntryTypeWidget"
    "type_of_entry cb en' = type_of_entry cb en" "type_of_entry cb en \<noteq> SegmentTypeNone"
  shows "widget_type (entry_widget en') = widget_type (entry_widget en)"
  using widget_type_of_variant [of en cb] widget_type_of_variant [of en' cb] assms
  by simp

lemma type_of_entry_table:
  "type_of_entry cb en =
     (case entry_type en of
        EntryTypeDeleted \<Rightarrow> SegmentTypeNone
      | EntryTypePrompt \<Rightarrow> SegmentTypeMessage
      | EntryTypeResponse \<Rightarrow> SegmentTypeMessage
      | EntryTypeThought \<Rightarrow> SegmentTypeInfo
      | EntryTypeError \<Rightarrow> SegmentTypeInfo
      | EntryTypeAction \<Rightarrow> SegmentTypeInfo
      | EntryTypeWidget \<Rightarrow>
          (case widget_type (entry_widget en) of
             ConversationWidgetTypeWeatherSingleDay \<Rightarrow> SegmentTypeWeatherSingleDayWidget
           | ConversationWidgetTypeWeatherCurrent \<Rightarrow> SegmentTypeWeatherCurrentWidget
           | ConversationWidgetTypeWeatherMultiDay \<Rightarrow> SegmentTypeWeatherMultiDayWidget
           | ConversationWidgetTypeTimer \<Rightarrow> SegmentTypeTimerWidget
           | ConversationWidgetTypeNumber \<Rightarrow> SegmentTypeNumberWidget
           | ConversationWidgetTypeMap \<Rightarrow>
               if ENABLE_FEATURE_MAPS cb then SegmentTypeMapWidget else SegmentTypeNone
           | ConversationWidgetTypeOther _ \<Rightarrow> SegmentTypeNone)
      | EntryTypeOther _ \<Rightarrow> SegmentTypeNone)"
  unfolding type_of_entry_def
  by (cases "entry_type en"; cases "widget_type (entry_widget en)")
     (simp_all add: classification_defs)

lemma calls_between_emit: "trace s' = trace s @ evs \<Longrightarrow> calls_between s s' = evs"
  by (simp add: calls_between_def)

lemma unrecognized_type:
  "unrecognized cb en \<Longrightarrow> type_of_entry cb en = SegmentTypeNone"
  unfolding type_of_entry_def unrecognized_def
  by (cases "entry_type en"; cases "widget_type (entry_widget en)")
     (simp_all add: classification_defs)

lemma calls_of_classification_cases:
  "calls_of_classification cb e en =
     (if unrecognized cb en
      then (if entry_type en = EntryTypeWidget
            then [Call_get_type e, Call_get_widget e, Call_get_type e]
            else [Call_get_type e, Call_get_type e])
           @ [Call_log APP_LOG_LEVEL_WARNING ''Unknown entry type %d.''
                (ArgEntryType (entry_type en))]
      else if entry_type en = EntryTypeWidget
           then [Call_get_type e, Call_get_widget e]
           else [Call_get_type e])"
  unfolding calls_of_classification_def unrecognized_def
  by (cases "entry_type en"; cases "widget_type (entry_widget en)")
     (simp_all add: classification_defs)

lemma segment_reached:
  assumes c: "segment_layer_create cb rect e al s0 = Some (p, s1)"
  shows "\<exists>s seg1 seg d. lifetime cb p steps s1 = Some s
     \<and> lookup s1 p = Some seg1 \<and> data seg1 = Some d
     \<and> lookup s p = Some seg \<and> data seg = Some d \<and> segment_ok cb s p
     \<and> (\<forall>q. q \<noteq> p \<and> q \<noteq> layer d \<longrightarrow> lookup s q = lookup s1 q)
     \<and> (\<forall>q. map_option kind (lookup s q) = map_option kind (lookup s1 q))
     \<and> (\<exists>evs. trace s = trace s1 @ evs \<and> set evs \<subseteq> {Call_update (type d) (layer d)})"
proof -
  from create_data [OF c] obtain seg1 d where sd: "lookup s1 p = Some seg1" "data seg1 = Some d"
    by blast
  from lifetime_effect [OF create_ok [OF c] sd, of steps] sd show ?thesis
    by blast
qed

lemma calls_of_classification_created [simp]:
  "created (calls_of_classification cb e en) = []"
  by (simp add: calls_of_classification_cases)

lemma created_append [simp]: "created (xs @ ys) = created xs @ created ys"
  by (induction xs rule: created.induct) simp_all

lemma destroyed_append [simp]: "destroyed (xs @ ys) = destroyed xs @ destroyed ys"
  by (induction xs rule: destroyed.induct) simp_all

lemma final_frame_origin [simp]: "origin (final_frame org sz lbl) = org"
  by (cases org) (simp add: final_frame_def Let_def)

lemma final_frame_size [simp]:
  "rect_size (final_frame org sz lbl) =
     GSize (size_w sz) (size_h sz + (if lbl \<noteq> NULL then NAME_HEIGHT else 0))"
  by (cases sz) (simp add: final_frame_def Let_def)

lemma sint_add_name_height:
  fixes a :: int16
  assumes "sint a \<le> 32747"
  shows "sint (a + NAME_HEIGHT) = sint a + 20"
proof -
  have lo: "- (2 ^ 15) \<le> sint a" using sint_ge [of a] by simp
  have "sint (a + NAME_HEIGHT) = signed_take_bit 15 (sint a + 20)"
    by (simp add: sint_word_ariths NAME_HEIGHT_def)
  also have "\<dots> = sint a + 20"
    using lo assms by (intro signed_take_bit_int_eq_self) simp_all
  finally show ?thesis .
qed

lemma frame_composedI:
  assumes "lookup s p = Some seg" "data seg = Some d"
    "layer_get_frame (layer d) s = Some cf"
    "rect_size (frame seg) = rect_size (final_frame org (rect_size cf) (assistant_label_layer d))"
  shows "frame_composed s p"
proof -
  have "p \<noteq> NULL" using assms(1) by auto
  with assms show ?thesis
    by (simp add: frame_composed_def layer_get_data_def layer_get_frame_def)
qed

lemma frame_composed_height_int:
  assumes "frame_composed s p"
  shows "\<exists>d f cf. layer_get_data p s = Some d \<and> layer_get_frame p s = Some f
     \<and> layer_get_frame (layer d) s = Some cf
     \<and> (sint (size_h (rect_size cf)) \<le> 32747 \<longrightarrow>
          sint (size_h (rect_size f)) =
            sint (size_h (rect_size cf)) + (if assistant_label_layer d \<noteq> NULL then 20 else 0))"
  using assms
  by (auto simp: frame_composed_def sint_add_name_height split: option.splits)

lemma lifetime_append:
  "lifetime cb p (xs @ ys) s =
     (case lifetime cb p xs s of None \<Rightarrow> None | Some s' \<Rightarrow> lifetime cb p ys s')"
  by (induction cb p xs s rule: lifetime.induct) (simp_all split: option.splits)

lemma update_reached:
  assumes c: "segment_layer_create cb rect e al s0 = Some (p, s1)"
    and l: "lifetime cb p steps s1 = Some s"
  shows "\<exists>seg1 seg d s' cf. lookup s1 p = Some seg1 \<and> data seg1 = Some d
     \<and> lookup s p = Some seg \<and> data seg = Some d \<and> segment_ok cb s p
     \<and> segment_layer_update cb p s = Some s'
     \<and> layer_get_frame (layer d) s' = Some cf
     \<and> (if has_view cb (type d)
         then \<exists>c. lookup s (layer d) = Some c
                \<and> cf = update_frame cb (type d) (entries s (view_entry c)) (frame c)
         else cf = GRectZero)
     \<and> lookup s' p = Some (seg\<lparr>frame := final_frame (origin (frame seg)) (rect_size cf)
                                         (assistant_label_layer d)\<rparr>)
     \<and> (\<forall>q. q \<noteq> p \<and> q \<noteq> layer d \<longrightarrow> lookup s' q = lookup s q)
     \<and> (\<forall>q. map_option kind (lookup s' q) = map_option kind (lookup s q))
     \<and> entries s' = entries s
     \<and> trace s' = trace s @ (if has_view cb (type d) then [Call_update (type d) (layer d)] else [])"
proof -
  from segment_reached [OF c, of steps] l obtain seg1 seg d where r:
    "lookup s1 p = Some seg1" "data seg1 = Some d" "lookup s p = Some seg" "data seg = Some d"
    "segment_ok cb s p"
    by auto
  from update_effect [OF r(5,3,4)] r show ?thesis by blast
qed

lemma reached_has_view:
  assumes c: "segment_layer_create cb rect e al s0 = Some (p, s1)"
    and "lookup s1 p = Some seg1" "data seg1 = Some d"
  shows "has_view cb (type d) = (type d \<noteq> SegmentTypeNone)"
    and "type d = fst (prv_get_segment_type cb e s0)"
    and "entry d = e" and "(assistant_label_layer d \<noteq> NULL) = al"
proof -
  from create_data [OF c] assms(2,3) have t: "type d = type_of_entry cb (entries s0 e)"
    and "entry d = e" and "(assistant_label_layer d \<noteq> NULL) = al"
    by auto
  then show "entry d = e" and "(assistant_label_layer d \<noteq> NULL) = al" by simp_all
  from t show "type d = fst (prv_get_segment_type cb e s0)"
    by (simp add: prv_get_segment_type_eq)
  from t type_of_entry_has_view [of cb "entries s0 e"]
  show "has_view cb (type d) = (type d \<noteq> SegmentTypeNone)"
    by (auto simp: has_view_def)
qed

lemma calls_between_classification:
  "calls_between s (snd (prv_get_segment_type cb e s)) = calls_of_classification cb e (entries s e)"
  by (simp add: prv_get_segment_type_eq calls_between_def)

lemma reached_calls:
  assumes c: "segment_layer_create cb rect e al s0 = Some (p, s1)"
    and l: "lifetime cb p steps s1 = Some s"
  shows "\<exists>d. layer_get_data p s1 = Some d \<and> layer_get_data p s = Some d
     \<and> set (calls_between s1 s) \<subseteq> {Call_update (type d) (layer d)}"
proof -
  from segment_reached [OF c, of steps] l obtain seg1 seg d evs where r:
    "lookup s1 p = Some seg1" "data seg1 = Some d" "lookup s p = Some seg" "data seg = Some d"
    "trace s = trace s1 @ evs" "set evs \<subseteq> {Call_update (type d) (layer d)}"
    by auto
  then show ?thesis by (simp add: layer_get_data_def calls_between_def)
qed

lemma destroy_reached:
  assumes c: "segment_layer_create cb rect e al s0 = Some (p, s1)"
    and l: "lifetime cb p steps s1 = Some s"
  shows "\<exists>s' d. segment_layer_destroy cb p s = Some s' \<and> layer_get_data p s = Some d
     \<and> layer_get_data p s1 = Some d
     \<and> calls_between s s' =
          [Call_log APP_LOG_LEVEL_INFO ''destroying SegmentLayer %p.'' (ArgPtr p)]
          @ (if type d \<noteq> SegmentTypeNone then [Call_destroy (View (type d)) (layer d)] else [])
          @ (if al then [Call_destroy TextLayer (assistant_label_layer d)] else [])
          @ [Call_destroy PlainLayer p]
     \<and> calls_between s0 s1 = [Call_create PlainLayer p]
          @ calls_of_classification cb e (entries s0 e)
          @ (if al then [Call_create TextLayer (assistant_label_layer d)] else [])
          @ (if type d \<noteq> SegmentTypeNone then [Call_create (View (type d)) (layer d)] else [])
     \<and> (\<forall>q. lookup s' q = lookup s0 q)
     \<and> entries s' = entries s"
proof -
  from segment_reached [OF c, of steps] l obtain seg1 seg d where r:
    "lookup s1 p = Some seg1" "data seg1 = Some d" "lookup s p = Some seg" "data seg = Some d"
    "segment_ok cb s p"
    "\<forall>q. q \<noteq> p \<and> q \<noteq> layer d \<longrightarrow> lookup s q = lookup s1 q"
    by auto
  note hv = reached_has_view [OF c r(1,2)]
  from create_data [OF c] r(1,2) have fresh:
    "lookup s0 p = None" "lookup s0 (assistant_label_layer d) = None" "lookup s0 (layer d) = None"
    "(layer d \<noteq> NULL) = has_view cb (type d)"
    by auto
  from create_cells [OF c r(1,2)] have same:
    "\<forall>q. q \<noteq> p \<and> q \<noteq> assistant_label_layer d \<and> q \<noteq> layer d \<longrightarrow> lookup s1 q = lookup s0 q"
    by blast
  from destroy_effect [OF r(5,3,4)] obtain s' where d:
    "segment_layer_destroy cb p s = Some s'"
    "\<forall>q. lookup s' q =
            (if q = p \<or> (has_view cb (type d) \<and> q = layer d)
                \<or> (assistant_label_layer d \<noteq> NULL \<and> q = assistant_label_layer d)
             then None else lookup s q)"
    "entries s' = entries s"
    "trace s' = trace s
          @ [Call_log APP_LOG_LEVEL_INFO ''destroying SegmentLayer %p.'' (ArgPtr p)]
          @ (if has_view cb (type d) then [Call_destroy (View (type d)) (layer d)] else [])
          @ (if assistant_label_layer d \<noteq> NULL
             then [Call_destroy TextLayer (assistant_label_layer d)] else [])
          @ [Call_destroy PlainLayer p]"
    by blast
  have base: "lookup s' q = lookup s0 q" for q
  proof (cases "q = p \<or> q = layer d \<or> q = assistant_label_layer d")
    case False
    then show ?thesis using d(2) r(6) same by simp
  next
    case True
    have "lookup s0 q = None" using True fresh by auto
    moreover have "lookup s' q = None"
    proof (cases "q = layer d \<and> \<not> has_view cb (type d)")
      case True
      then have "q = NULL" using fresh(4) by simp
      then show ?thesis by simp
    next
      case nv: False
      show ?thesis
      proof (cases "q = assistant_label_layer d \<and> assistant_label_layer d = NULL")
        case True
        then have "q = NULL" by simp
        then show ?thesis by simp
      next
        case False
        with nv True show ?thesis using d(2) by auto
      qed
    qed
    ultimately show ?thesis by simp
  qed
  have 1: "calls_between s s' =
          [Call_log APP_LOG_LEVEL_INFO ''destroying SegmentLayer %p.'' (ArgPtr p)]
          @ (if type d \<noteq> SegmentTypeNone then [Call_destroy (View (type d)) (layer d)] else [])
          @ (if al then [Call_destroy TextLayer (assistant_label_layer d)] else [])
          @ [Call_destroy PlainLayer p]"
    using d(4) hv(1,4) by (simp add: calls_between_def)
  have 2: "calls_between s0 s1 = [Call_create PlainLayer p]
          @ calls_of_classification cb e (entries s0 e)
          @ (if al then [Call_create TextLayer (assistant_label_layer d)] else [])
          @ (if type d \<noteq> SegmentTypeNone then [Call_create (View (type d)) (layer d)] else [])"
    using create_trace [OF c r(1,2)] hv(1) by (simp add: calls_between_def)
  have 3: "layer_get_data p s = Some d" "layer_get_data p s1 = Some d"
    using r(1-4) by (simp_all add: layer_get_data_def)
  show ?thesis using d(1,3) 1 2 3 base by simp
qed

lemma type_of_entry_cong:
  "entry_type en = entry_type en' \<Longrightarrow>
   widget_type (entry_widget en) = widget_type (entry_widget en') \<Longrightarrow>
   type_of_entry cb en = type_of_entry cb en'"
  by (cases "entry_type en'") (simp_all add: type_of_entry_table)

lemma example_create:
  "\<exists>s1. segment_layer_create example_collab (GRect 3 4 180 200) 7 True example_world = Some (1, s1)
     \<and> layer_get_frame 1 s1 = Some (GRect 3 4 180 64)
     \<and> layer_get_frame 3 s1 = Some (GRect 0 0 180 44)
     \<and> layer_get_data 1 s1 = Some \<lparr>entry = 7, assistant_label_layer = 2,
                                      type = SegmentTypeTimerWidget, layer = 3\<rparr>"
  using create_effect [of example_collab "GRect 3 4 180 200" 7 True example_world]
  by (auto simp: example_world_def example_collab_def example_entry_def type_of_entry_table
        has_view_def layer_get_frame_def layer_get_data_def NULL_def final_frame_def
        NAME_HEIGHT_def Let_def numeral_2_eq_2 numeral_3_eq_3)

section \<open>The claims\<close>

subsection \<open>Claim C1: the classification table\<close>

text \<open>
  Claim C1. \<open>prv_get_segment_type\<close> classifies every recognized entry as the table
  says: a Deleted entry as \<open>SegmentTypeNone\<close>; Prompt and Response as
  \<open>SegmentTypeMessage\<close>; Thought, Error and Action as \<open>SegmentTypeInfo\<close>; a Widget
  entry as the widget variant of its sub-type (the map sub-type in a build with maps).
  The widget variants correspond to the sub-types one to one: two widget entries
  classified as the same variant other than \<open>SegmentTypeNone\<close> have the same sub-type.
\<close>

theorem prv_get_segment_type_table:
  "(entry_type (entries s e) = EntryTypeDeleted \<longrightarrow>
      fst (prv_get_segment_type cb e s) = SegmentTypeNone)
   \<and> (entry_type (entries s e) \<in> {EntryTypePrompt, EntryTypeResponse} \<longrightarrow>
      fst (prv_get_segment_type cb e s) = SegmentTypeMessage)
   \<and> (entry_type (entries s e) \<in> {EntryTypeThought, EntryTypeError, EntryTypeAction} \<longrightarrow>
      fst (prv_get_segment_type cb e s) = SegmentTypeInfo)
   \<and> (entry_type (entries s e) = EntryTypeWidget \<longrightarrow>
       (widget_type (entry_widget (entries s e)) = ConversationWidgetTypeWeatherSingleDay \<longrightarrow>
          fst (prv_get_segment_type cb e s) = SegmentTypeWeatherSingleDayWidget)
     \<and> (widget_type (entry_widget (entries s e)) = ConversationWidgetTypeWeatherCurrent \<longrightarrow>
          fst (prv_get_segment_type cb e s) = SegmentTypeWeatherCurrentWidget)
     \<and> (widget_type (entry_widget (entries s e)) = ConversationWidgetTypeWeatherMultiDay \<longrightarrow>
          fst (prv_get_segment_type cb e s) = SegmentTypeWeatherMultiDayWidget)
     \<and> (widget_type (entry_widget (entries s e)) = ConversationWidgetTypeTimer \<longrightarrow>
          fst (prv_get_segment_type cb e s) = SegmentTypeTimerWidget)
     \<and> (widget_type (entry_widget (entries s e)) = ConversationWidgetTypeNumber \<longrightarrow>
          fst (prv_get_segment_type cb e s) = SegmentTypeNumberWidget)
     \<and> (widget_type (entry_widget (entries s e)) = ConversationWidgetTypeMap
          \<and> ENABLE_FEATURE_MAPS cb \<longrightarrow>
          fst (prv_get_segment_type cb e s) = SegmentTypeMapWidget)
     \<and> (entry_type (entries s' e') = EntryTypeWidget
          \<and> fst (prv_get_segment_type cb e' s') = fst (prv_get_segment_type cb e s)
          \<and> fst (prv_get_segment_type cb e s) \<noteq> SegmentTypeNone \<longrightarrow>
          widget_type (entry_widget (entries s' e')) = widget_type (entry_widget (entries s e))))"
  apply (simp only: prv_get_segment_type_eq fst_conv)
  apply (intro conjI impI)
           prefer 10
           apply (elim conjE, erule (3) type_of_entry_widget_inj)
          apply (auto simp add: type_of_entry_table)
  done

theorem prv_get_segment_type_table_witness:
  "fst (prv_get_segment_type example_collab 7 example_world) = SegmentTypeTimerWidget
   \<and> fst (prv_get_segment_type example_collab 3 example_world) = SegmentTypeNone
   \<and> fst (prv_get_segment_type example_collab 4 example_world) = SegmentTypeMessage
   \<and> fst (prv_get_segment_type example_collab 5 example_world) = SegmentTypeInfo
   \<and> fst (prv_get_segment_type example_collab 6 example_world) = SegmentTypeMapWidget"
  using prv_get_segment_type_table [of example_world 7 example_collab example_world 7]
    prv_get_segment_type_table [of example_world 6 example_collab example_world 7]
    prv_get_segment_type_table [of example_world 3 example_collab example_world 7]
    prv_get_segment_type_table [of example_world 4 example_collab example_world 7]
    prv_get_segment_type_table [of example_world 5 example_collab example_world 7]
  by (simp add: example_entry_simps)

subsection \<open>Claim C2: classification is total and fail-soft\<close>

text \<open>
  Claim C2. Classification is total and fail-soft. \<open>prv_get_segment_type\<close> is a total
  function that returns a variant and the world, with no fault value. For an entry whose
  type or widget sub-type is outside the recognized set it returns \<open>SegmentTypeNone\<close>,
  and the last call it makes is the warning-level log of the entry's type. It changes
  neither the heap nor the data model, and it logs a warning for the unrecognized
  entries and for no other entry.
\<close>

theorem prv_get_segment_type_fail_soft:
  "(unrecognized cb (entries s e) \<longrightarrow>
      fst (prv_get_segment_type cb e s) = SegmentTypeNone
      \<and> last (calls_between s (snd (prv_get_segment_type cb e s))) =
          Call_log APP_LOG_LEVEL_WARNING ''Unknown entry type %d.''
            (ArgEntryType (entry_type (entries s e))))
   \<and> heap (snd (prv_get_segment_type cb e s)) = heap s
   \<and> entries (snd (prv_get_segment_type cb e s)) = entries s
   \<and> (\<exists>ev \<in> set (calls_between s (snd (prv_get_segment_type cb e s))). is_warning ev)
       = unrecognized cb (entries s e)"
  by (simp add: prv_get_segment_type_eq calls_between_def calls_of_classification_cases
        unrecognized_type is_warning_def)

theorem prv_get_segment_type_fail_soft_witness:
  "unrecognized example_collab (entries example_world 2)
   \<and> fst (prv_get_segment_type example_collab 2 example_world) = SegmentTypeNone
   \<and> last (calls_between example_world (snd (prv_get_segment_type example_collab 2 example_world)))
       = Call_log APP_LOG_LEVEL_WARNING ''Unknown entry type %d.'' (ArgEntryType (EntryTypeOther 99))"
  using prv_get_segment_type_fail_soft [of example_collab example_world 2]
  by (simp add: unrecognized_def example_entry_simps)

subsection \<open>Claim C3: construction for an unrecognized entry\<close>

text \<open>
  Claim C3. For an entry whose type (or widget sub-type) is unrecognized,
  \<open>segment_layer_create\<close> returns a segment whose variant is \<open>SegmentTypeNone\<close>; no
  concrete view is constructed (no constructor of a view is called and the union cell
  stays \<^verbatim>\<open>NULL\<close>); the height of its frame is 0 without a label and \<open>NAME_HEIGHT\<close>
  with one. The height is the one of the frame that the view tree reports for the
  absent child.
\<close>

theorem create_unrecognized_entry:
  assumes "unrecognized cb (entries s e)"
  shows "\<exists>p s' d f. segment_layer_create cb rect e al s = Some (p, s')
     \<and> layer_get_data p s' = Some d \<and> type d = SegmentTypeNone \<and> layer d = NULL
     \<and> (\<forall>t q. Call_create (View t) q \<notin> set (calls_between s s'))
     \<and> layer_get_frame p s' = Some f
     \<and> size_h (rect_size f) = (if al then NAME_HEIGHT else 0)"
proof -
  from create_total obtain p s' where c: "segment_layer_create cb rect e al s = Some (p, s')"
    by blast
  from create_data [OF c] obtain seg d where sd:
    "lookup s' p = Some seg" "data seg = Some d" "type d = type_of_entry cb (entries s e)"
    "(assistant_label_layer d \<noteq> NULL) = al" "(layer d \<noteq> NULL) = has_view cb (type d)"
    by blast
  have t: "type d = SegmentTypeNone" using sd(3) unrecognized_type [OF assms] by simp
  then have nv: "\<not> has_view cb (type d)" by (simp add: has_view_def)
  with sd(5) have l: "layer d = NULL" by simp
  from create_cells [OF c sd(1,2)] l
  have fr: "frame seg = final_frame (origin rect) (rect_size GRectZero) (assistant_label_layer d)"
    by simp
  have tr: "calls_between s s' = [Call_create PlainLayer p]
          @ calls_of_classification cb e (entries s e)
          @ (if al then [Call_create TextLayer (assistant_label_layer d)] else [])"
    using create_trace [OF c sd(1,2)] nv by (simp add: calls_between_def)
  have nc: "\<forall>t q. Call_create (View t) q \<notin> set (calls_between s s')"
    unfolding tr by (auto simp: calls_of_classification_cases)
  have pn: "p \<noteq> NULL" using sd(1) by auto
  have h: "size_h (rect_size (frame seg)) = (if al then NAME_HEIGHT else 0)"
    using fr sd(4) by (auto simp: GRectZero_def)
  show ?thesis
    using c sd(1,2) t l nc pn h
    by (simp add: layer_get_data_def layer_get_frame_def)
qed

theorem create_unrecognized_entry_witness:
  "\<exists>p s' d f. segment_layer_create example_collab (GRect 0 0 180 200) 2 True example_world
        = Some (p, s')
     \<and> layer_get_data p s' = Some d \<and> type d = SegmentTypeNone \<and> layer d = NULL
     \<and> (\<forall>t q. Call_create (View t) q \<notin> set (calls_between example_world s'))
     \<and> layer_get_frame p s' = Some f
     \<and> size_h (rect_size f) = NAME_HEIGHT"
proof -
  have "unrecognized example_collab (entries example_world 2)"
    by (simp add: unrecognized_def example_entry_simps)
  from create_unrecognized_entry [OF this, of "GRect 0 0 180 200" True] show ?thesis
    by simp
qed

subsection \<open>Claim C4: frame composition\<close>

text \<open>
  Claim C4. Frame composition. Right after \<open>segment_layer_create\<close> the height of the
  segment's frame is the height of the frame of its child plus \<open>NAME_HEIGHT\<close> if there
  is a label (plus 0 otherwise), and its origin is the origin of the input rectangle.
  For a segment at any later moment of its life, \<open>segment_layer_update\<close> re-establishes
  the equation and keeps the origin the segment has when it is called. The sum is the
  \<^verbatim>\<open>int16_t\<close> sum of the code; by \<open>frame_composed_height_int\<close> it is the sum of the
  integers whenever the child is at most 32747 high.
\<close>

theorem frame_composition:
  assumes c: "segment_layer_create cb rect e al s0 = Some (p, s1)"
    and l: "lifetime cb p steps s1 = Some s"
  shows "frame_composed s1 p
     \<and> (\<exists>f. layer_get_frame p s1 = Some f \<and> origin f = origin rect)
     \<and> (\<exists>s' f f'. segment_layer_update cb p s = Some s' \<and> frame_composed s' p
           \<and> layer_get_frame p s = Some f \<and> layer_get_frame p s' = Some f'
           \<and> origin f' = origin f)"
proof -
  from create_data [OF c] obtain seg1 d where sd: "lookup s1 p = Some seg1" "data seg1 = Some d"
    by blast
  from create_cells [OF c sd] obtain cf1 where cf1:
    "layer_get_frame (layer d) s1 = Some cf1"
    "frame seg1 = final_frame (origin rect) (rect_size cf1) (assistant_label_layer d)"
    by blast
  have pn: "p \<noteq> NULL" using sd(1) by auto
  have 1: "frame_composed s1 p"
    using frame_composedI [OF sd cf1(1)] cf1(2) by simp
  have 2: "\<exists>f. layer_get_frame p s1 = Some f \<and> origin f = origin rect"
    using sd(1) cf1(2) pn by (simp add: layer_get_frame_def)
  from update_reached [OF c l] sd obtain seg s' cf where u:
    "lookup s p = Some seg" "data seg = Some d"
    "segment_layer_update cb p s = Some s'"
    "layer_get_frame (layer d) s' = Some cf"
    "lookup s' p = Some (seg\<lparr>frame := final_frame (origin (frame seg)) (rect_size cf)
                                         (assistant_label_layer d)\<rparr>)"
    by auto
  have 3: "frame_composed s' p"
    using frame_composedI [OF u(5) _ u(4)] u(2) by simp
  have 4: "layer_get_frame p s = Some (frame seg)"
    using u(1) pn by (simp add: layer_get_frame_def)
  have 5: "layer_get_frame p s' = Some (final_frame (origin (frame seg)) (rect_size cf)
                                         (assistant_label_layer d))"
    using u(5) pn by (simp add: layer_get_frame_def)
  show ?thesis using 1 2 u(3) 3 4 5 by simp
qed

theorem frame_composition_witness:
  "\<exists>s1 s. segment_layer_create example_collab (GRect 3 4 180 200) 7 True example_world
               = Some (1, s1)
     \<and> lifetime example_collab 1 [Update, Moved (GPoint 9 9), Update] s1 = Some s
     \<and> frame_composed s1 1
     \<and> layer_get_frame 1 s1 = Some (GRect 3 4 180 64)
     \<and> layer_get_frame 3 s1 = Some (GRect 0 0 180 44)
     \<and> (\<exists>s' f f'. segment_layer_update example_collab 1 s = Some s' \<and> frame_composed s' 1
           \<and> layer_get_frame 1 s = Some f \<and> layer_get_frame 1 s' = Some f'
           \<and> origin f' = origin f)"
proof -
  from example_create obtain s1 where
    c: "segment_layer_create example_collab (GRect 3 4 180 200) 7 True example_world = Some (1, s1)"
    and f: "layer_get_frame 1 s1 = Some (GRect 3 4 180 64)"
      "layer_get_frame 3 s1 = Some (GRect 0 0 180 44)"
    by blast
  from segment_reached [OF c] obtain s where
    l: "lifetime example_collab 1 [Update, Moved (GPoint 9 9), Update] s1 = Some s"
    by blast
  from frame_composition [OF c l] c l f show ?thesis by simp
qed

subsection \<open>Claim C5: destruction releases each resource once\<close>

text \<open>
  Claim C5. For a segment at any moment of its life, \<open>segment_layer_destroy\<close> returns
  without a fault and calls, in this order: the destructor of the view of the
  segment's variant, once (none for \<open>SegmentTypeNone\<close>); the destructor of the label if
  and only if the segment was constructed with a label; the destructor of the segment's
  own layer, last. The cells it releases are the cells \<open>segment_layer_create\<close> had
  created, each once and by the destructor of its kind; afterwards the live cells are
  those from before the construction, so nothing is leaked; and nothing is released
  twice, a release of a cell that is not live being a fault (as a second destroy is).
\<close>

theorem destroy_releases_each_resource_once:
  assumes c: "segment_layer_create cb rect e al s0 = Some (p, s1)"
    and l: "lifetime cb p steps s1 = Some s"
  shows "\<exists>s' d. segment_layer_destroy cb p s = Some s' \<and> layer_get_data p s = Some d
     \<and> calls_between s s' =
          [Call_log APP_LOG_LEVEL_INFO ''destroying SegmentLayer %p.'' (ArgPtr p)]
          @ (if type d \<noteq> SegmentTypeNone then [Call_destroy (View (type d)) (layer d)] else [])
          @ (if al then [Call_destroy TextLayer (assistant_label_layer d)] else [])
          @ [Call_destroy PlainLayer p]
     \<and> set (destroyed (calls_between s s')) = set (created (calls_between s0 s1))
     \<and> distinct (destroyed (calls_between s s'))
     \<and> distinct (created (calls_between s0 s1))
     \<and> (\<forall>q. lookup s' q = lookup s0 q)
     \<and> segment_layer_destroy cb p s' = None"
proof -
  from destroy_reached [OF c l] obtain s' d where d:
    "segment_layer_destroy cb p s = Some s'" "layer_get_data p s = Some d"
    "layer_get_data p s1 = Some d"
    "calls_between s s' =
          [Call_log APP_LOG_LEVEL_INFO ''destroying SegmentLayer %p.'' (ArgPtr p)]
          @ (if type d \<noteq> SegmentTypeNone then [Call_destroy (View (type d)) (layer d)] else [])
          @ (if al then [Call_destroy TextLayer (assistant_label_layer d)] else [])
          @ [Call_destroy PlainLayer p]"
    "calls_between s0 s1 = [Call_create PlainLayer p]
          @ calls_of_classification cb e (entries s0 e)
          @ (if al then [Call_create TextLayer (assistant_label_layer d)] else [])
          @ (if type d \<noteq> SegmentTypeNone then [Call_create (View (type d)) (layer d)] else [])"
    "\<forall>q. lookup s' q = lookup s0 q"
    by blast
  have gone: "lookup s' p = None"
    using d(6) create_data [OF c] by auto
  have 1: "set (destroyed (calls_between s s')) = set (created (calls_between s0 s1))"
    unfolding d(4,5) by auto
  have 2: "distinct (destroyed (calls_between s s'))"
    unfolding d(4) by simp
  have 3: "distinct (created (calls_between s0 s1))"
    unfolding d(5) by simp
  have 4: "segment_layer_destroy cb p s' = None"
    using gone by (simp add: segment_layer_destroy_def layer_get_data_def BOBBY_LOG_def)
  show ?thesis using d(1,2,4,6) 1 2 3 4 by simp
qed

theorem destroy_releases_each_resource_once_witness:
  "\<exists>p s1 s s' d.
       segment_layer_create example_collab (GRect 3 4 180 200) 7 True example_world = Some (p, s1)
     \<and> lifetime example_collab p [Update, EntryChanged 7 (example_entry 4), Update] s1 = Some s
     \<and> segment_layer_destroy example_collab p s = Some s' \<and> layer_get_data p s = Some d
     \<and> set (destroyed (calls_between s s')) = set (created (calls_between example_world s1))
     \<and> distinct (destroyed (calls_between s s'))
     \<and> (\<forall>q. lookup s' q = lookup example_world q)
     \<and> segment_layer_destroy example_collab p s' = None"
proof -
  from create_total obtain p s1 where
    c: "segment_layer_create example_collab (GRect 3 4 180 200) 7 True example_world = Some (p, s1)"
    by blast
  from segment_reached [OF c] obtain s where
    l: "lifetime example_collab p [Update, EntryChanged 7 (example_entry 4), Update] s1 = Some s"
    by blast
  from destroy_releases_each_resource_once [OF c l] c l show ?thesis by blast
qed

subsection \<open>Claim C6: update is idempotent on the frame\<close>

text \<open>
  Claim C6. Update is idempotent on the frame. For a segment at any moment of its life,
  two calls of \<open>segment_layer_update\<close> in succession both return, the data model is the
  same after both, and if the second call has left the frame of the child as the first
  call left it, the segment has the same frame after both calls.
\<close>

theorem update_idempotent_on_frame:
  assumes c: "segment_layer_create cb rect e al s0 = Some (p, s1)"
    and l: "lifetime cb p steps s1 = Some s"
  shows "\<exists>s' s'' d. segment_layer_update cb p s = Some s'
     \<and> segment_layer_update cb p s' = Some s''
     \<and> layer_get_data p s' = Some d
     \<and> entries s'' = entries s'
     \<and> (layer_get_frame (layer d) s'' = layer_get_frame (layer d) s' \<longrightarrow>
          layer_get_frame p s'' = layer_get_frame p s')"
proof -
  from update_reached [OF c l] obtain seg d s' cf where u:
    "lookup s p = Some seg" "data seg = Some d"
    "segment_layer_update cb p s = Some s'"
    "layer_get_frame (layer d) s' = Some cf"
    "lookup s' p = Some (seg\<lparr>frame := final_frame (origin (frame seg)) (rect_size cf)
                                         (assistant_label_layer d)\<rparr>)"
    by auto
  have l': "lifetime cb p (steps @ [Update]) s1 = Some s'"
    using l u(3) by (simp add: lifetime_append)
  from update_reached [OF c l'] u(5,2) obtain s'' cf' where v:
    "segment_layer_update cb p s' = Some s''"
    "layer_get_frame (layer d) s'' = Some cf'"
    "lookup s'' p = Some (seg\<lparr>frame := final_frame (origin (frame seg)) (rect_size cf')
                                         (assistant_label_layer d)\<rparr>)"
    "entries s'' = entries s'"
    by auto
  have pn: "p \<noteq> NULL" using u(1) by auto
  have d': "layer_get_data p s' = Some d" using u(5,2) by (simp add: layer_get_data_def)
  have "layer_get_frame p s'' = layer_get_frame p s'" if "cf' = cf"
    using that u(5) v(3) pn by (simp add: layer_get_frame_def)
  then show ?thesis using u(3,4) v(1,2,4) d' by simp
qed

theorem update_idempotent_on_frame_witness:
  "\<exists>p s1 s' s'' d.
       segment_layer_create example_collab (GRect 3 4 180 200) 7 True example_world = Some (p, s1)
     \<and> lifetime example_collab p [] s1 = Some s1
     \<and> segment_layer_update example_collab p s1 = Some s'
     \<and> segment_layer_update example_collab p s' = Some s''
     \<and> layer_get_data p s' = Some d
     \<and> layer_get_frame (layer d) s'' = layer_get_frame (layer d) s'
     \<and> layer_get_frame p s'' = layer_get_frame p s'"
proof -
  let ?cb = example_collab
  from create_total obtain p s1 where
    c: "segment_layer_create ?cb (GRect 3 4 180 200) 7 True example_world = Some (p, s1)"
    by blast
  have l: "lifetime ?cb p [] s1 = Some s1" by simp
  from update_idempotent_on_frame [OF c l] obtain s' s'' d where u:
    "segment_layer_update ?cb p s1 = Some s'" "segment_layer_update ?cb p s' = Some s''"
    "layer_get_data p s' = Some d"
    "layer_get_frame (layer d) s'' = layer_get_frame (layer d) s' \<longrightarrow>
       layer_get_frame p s'' = layer_get_frame p s'"
    by blast
  have l': "lifetime ?cb p [Update] s1 = Some s'" using u(1) by simp
  from update_reached [OF c l'] u(2,3) obtain cf where v:
    "layer_get_frame (layer d) s'' = Some cf"
    "if has_view ?cb (type d)
     then \<exists>c. lookup s' (layer d) = Some c
            \<and> cf = update_frame ?cb (type d) (entries s' (view_entry c)) (frame c)
     else cf = GRectZero"
    "segment_ok ?cb s' p"
    by (auto simp: layer_get_data_def split: option.splits)
  have same: "layer_get_frame (layer d) s'' = layer_get_frame (layer d) s'"
  proof (cases "has_view ?cb (type d)")
    case True
    with v(2) obtain c where "lookup s' (layer d) = Some c" "cf = frame c"
      by (auto simp: example_collab_def)
    with v(1) show ?thesis by (auto simp: layer_get_frame_def)
  next
    case False
    from u(3) obtain seg where sg: "lookup s' p = Some seg" "data seg = Some d"
      by (auto simp: layer_get_data_def split: option.splits)
    from segment_ok_no_view [OF v(3) sg False] v(1,2) False show ?thesis
      by simp
  qed
  with u c l show ?thesis by blast
qed

subsection \<open>Claim C7: the label\<close>

text \<open>
  Claim C7. A segment constructed with \<open>assistant_label\<close> true has a label: a text
  layer created by the call, placed at the top (its frame is \<open>GRect 5 0 w NAME_HEIGHT\<close>),
  attached as a child and showing ``Bobby''. Its concrete view, when its variant has
  one, is constructed with the frame of the input rectangle inset from the top by
  \<open>NAME_HEIGHT\<close> (origin \<open>(0, NAME_HEIGHT)\<close>, height reduced by \<open>NAME_HEIGHT\<close>), and
  the final height is the height of the child plus \<open>NAME_HEIGHT\<close>. Constructed with
  \<open>assistant_label\<close> false it has no label: the label pointer is \<^verbatim>\<open>NULL\<close>, no text layer
  is created, the view gets the whole rectangle and the height is the child's.
\<close>

theorem create_with_label:
  assumes c: "segment_layer_create cb rect e al s = Some (p, s')"
  shows "\<exists>seg d f cf. lookup s' p = Some seg \<and> layer_get_data p s' = Some d
     \<and> layer_get_frame p s' = Some f \<and> layer_get_frame (layer d) s' = Some cf
     \<and> (assistant_label_layer d \<noteq> NULL) = al
     \<and> (al \<longrightarrow>
           (\<exists>lbl. lookup s' (assistant_label_layer d) = Some lbl \<and> kind lbl = TextLayer
               \<and> label_text lbl = ''Bobby''
               \<and> frame lbl = GRect 5 0 (size_w (rect_size rect)) NAME_HEIGHT)
         \<and> lookup s (assistant_label_layer d) = None
         \<and> assistant_label_layer d \<in> set (children seg)
         \<and> (type d \<noteq> SegmentTypeNone \<longrightarrow>
               cf = create_frame cb (type d)
                      (GRect 0 NAME_HEIGHT (size_w (rect_size rect))
                         (size_h (rect_size rect) - NAME_HEIGHT))
                      (entries s e))
         \<and> size_h (rect_size f) = size_h (rect_size cf) + NAME_HEIGHT)
     \<and> (\<not> al \<longrightarrow>
           (\<forall>q. Call_create TextLayer q \<notin> set (calls_between s s'))
         \<and> (\<forall>q x. lookup s q = None \<and> lookup s' q = Some x \<longrightarrow> kind x \<noteq> TextLayer)
         \<and> (type d \<noteq> SegmentTypeNone \<longrightarrow>
               cf = create_frame cb (type d)
                      (GRect 0 0 (size_w (rect_size rect)) (size_h (rect_size rect)))
                      (entries s e))
         \<and> size_h (rect_size f) = size_h (rect_size cf))"
proof -
  from create_data [OF c] obtain seg d where sd:
    "lookup s' p = Some seg" "data seg = Some d" "kind seg = PlainLayer"
    "(assistant_label_layer d \<noteq> NULL) = al"
    "(layer d \<noteq> NULL) = has_view cb (type d)"
    "children seg = (if al then [assistant_label_layer d] else [])
                        @ (if has_view cb (type d) then [layer d] else [])"
    "lookup s (assistant_label_layer d) = None"
    by blast
  note hv = reached_has_view(1) [OF c sd(1,2)]
  from create_cells [OF c sd(1,2)] obtain cf where cc:
    "al \<longrightarrow> lookup s' (assistant_label_layer d) =
              Some \<lparr>frame = GRect 5 0 (size_w (rect_size rect)) NAME_HEIGHT, children = [],
                    data = None, label_text = ''Bobby'', kind = TextLayer, view_entry = NULL\<rparr>"
    "has_view cb (type d) \<longrightarrow> lookup s' (layer d) =
              Some \<lparr>frame = create_frame cb (type d)
                              (if al then GRect 0 NAME_HEIGHT (size_w (rect_size rect))
                                            (size_h (rect_size rect) - NAME_HEIGHT)
                               else GRect 0 0 (size_w (rect_size rect)) (size_h (rect_size rect)))
                              (entries s e),
                    children = [], data = None, label_text = [], kind = View (type d),
                    view_entry = e\<rparr>"
    "\<forall>q. q \<noteq> p \<and> q \<noteq> assistant_label_layer d \<and> q \<noteq> layer d \<longrightarrow> lookup s' q = lookup s q"
    "layer_get_frame (layer d) s' = Some cf"
    "frame seg = final_frame (origin rect) (rect_size cf) (assistant_label_layer d)"
    by blast
  have pn: "p \<noteq> NULL" using sd(1) by auto
  have 1: "layer_get_data p s' = Some d" using sd(1,2) by (simp add: layer_get_data_def)
  have 2: "layer_get_frame p s' = Some (frame seg)" using sd(1) pn by (simp add: layer_get_frame_def)
  have cfv: "type d \<noteq> SegmentTypeNone \<Longrightarrow>
     cf = create_frame cb (type d)
            (if al then GRect 0 NAME_HEIGHT (size_w (rect_size rect))
                          (size_h (rect_size rect) - NAME_HEIGHT)
             else GRect 0 0 (size_w (rect_size rect)) (size_h (rect_size rect)))
            (entries s e)"
    using cc(2,4) hv sd(5) by (auto simp: layer_get_frame_def)
  have h: "size_h (rect_size (frame seg)) =
             size_h (rect_size cf) + (if al then NAME_HEIGHT else 0)"
    using cc(5) sd(4) by simp
  have tr: "calls_between s s' = [Call_create PlainLayer p]
          @ calls_of_classification cb e (entries s e)
          @ (if al then [Call_create TextLayer (assistant_label_layer d)] else [])
          @ (if has_view cb (type d) then [Call_create (View (type d)) (layer d)] else [])"
    using create_trace [OF c sd(1,2)] by (simp add: calls_between_def)
  have nt: "\<not> al \<Longrightarrow> \<forall>q. Call_create TextLayer q \<notin> set (calls_between s s')"
    unfolding tr by (auto simp: calls_of_classification_cases)
  have nl: "\<not> al \<Longrightarrow> \<forall>q x. lookup s q = None \<and> lookup s' q = Some x \<longrightarrow> kind x \<noteq> TextLayer"
  proof (intro allI impI)
    fix q x assume al: "\<not> al" and q: "lookup s q = None \<and> lookup s' q = Some x"
    then have "q = p \<or> q = layer d \<or> q = assistant_label_layer d" using cc(3) by auto
    moreover have "assistant_label_layer d = NULL" using al sd(4) by simp
    ultimately have "q = p \<or> (q = layer d \<and> has_view cb (type d))"
      using q sd(5) by auto
    then show "kind x \<noteq> TextLayer" using q sd(1,3) cc(2) by auto
  qed
  show ?thesis
  proof (intro exI conjI)
    show "lookup s' p = Some seg" by (fact sd(1))
    show "layer_get_data p s' = Some d" by (fact 1)
    show "layer_get_frame p s' = Some (frame seg)" by (fact 2)
    show "layer_get_frame (layer d) s' = Some cf" by (fact cc(4))
    show "(assistant_label_layer d \<noteq> NULL) = al" by (fact sd(4))
    show "al \<longrightarrow>
           (\<exists>lbl. lookup s' (assistant_label_layer d) = Some lbl \<and> kind lbl = TextLayer
               \<and> label_text lbl = ''Bobby''
               \<and> frame lbl = GRect 5 0 (size_w (rect_size rect)) NAME_HEIGHT)
         \<and> lookup s (assistant_label_layer d) = None
         \<and> assistant_label_layer d \<in> set (children seg)
         \<and> (type d \<noteq> SegmentTypeNone \<longrightarrow>
               cf = create_frame cb (type d)
                      (GRect 0 NAME_HEIGHT (size_w (rect_size rect))
                         (size_h (rect_size rect) - NAME_HEIGHT))
                      (entries s e))
         \<and> size_h (rect_size (frame seg)) = size_h (rect_size cf) + NAME_HEIGHT"
      using cc(1) sd(6,7) cfv h by simp
    show "\<not> al \<longrightarrow>
           (\<forall>q. Call_create TextLayer q \<notin> set (calls_between s s'))
         \<and> (\<forall>q x. lookup s q = None \<and> lookup s' q = Some x \<longrightarrow> kind x \<noteq> TextLayer)
         \<and> (type d \<noteq> SegmentTypeNone \<longrightarrow>
               cf = create_frame cb (type d)
                      (GRect 0 0 (size_w (rect_size rect)) (size_h (rect_size rect)))
                      (entries s e))
         \<and> size_h (rect_size (frame seg)) = size_h (rect_size cf)"
      using nt nl cfv h by simp
  qed
qed

theorem create_with_label_witness:
  "\<exists>s' seg d cf lbl.
       segment_layer_create example_collab (GRect 3 4 180 200) 7 True example_world = Some (1, s')
     \<and> lookup s' 1 = Some seg \<and> layer_get_data 1 s' = Some d
     \<and> layer_get_frame 1 s' = Some (GRect 3 4 180 64)
     \<and> layer_get_frame (layer d) s' = Some cf
     \<and> assistant_label_layer d \<noteq> NULL
     \<and> lookup s' (assistant_label_layer d) = Some lbl \<and> kind lbl = TextLayer
     \<and> label_text lbl = ''Bobby''
     \<and> type d = SegmentTypeTimerWidget
     \<and> cf = GRect 0 0 180 44
     \<and> size_h (rect_size (GRect 3 4 180 64)) = size_h (rect_size cf) + NAME_HEIGHT"
proof -
  from example_create obtain s' where
    c: "segment_layer_create example_collab (GRect 3 4 180 200) 7 True example_world = Some (1, s')"
    and f: "layer_get_frame 1 s' = Some (GRect 3 4 180 64)"
      "layer_get_frame 3 s' = Some (GRect 0 0 180 44)"
      "layer_get_data 1 s' = Some \<lparr>entry = 7, assistant_label_layer = 2,
                                      type = SegmentTypeTimerWidget, layer = 3\<rparr>"
    by blast
  from create_with_label [OF c] c f show ?thesis by auto
qed

subsection \<open>Claim C8: the variant tag is fixed\<close>

text \<open>
  Claim C8. The tag of a segment is the result of the one run of
  \<open>prv_get_segment_type\<close> that \<open>segment_layer_create\<close> makes on the entry (the calls of
  the type accessor during construction are those of that run), a result that depends
  only on the entry's type and widget sub-type. Whatever happens to the segment
  afterwards (updates, changes of entries in the data model, moves), the tag stays the
  same and the type accessor is not called again; \<open>segment_layer_get_entry\<close> returns
  a pointer and changes nothing; \<open>segment_layer_destroy\<close> does not classify either and
  ends the segment.
\<close>

theorem variant_tag_fixed:
  assumes c: "segment_layer_create cb rect e al s0 = Some (p, s1)"
    and l: "lifetime cb p steps s1 = Some s"
  shows "\<exists>d1 d. layer_get_data p s1 = Some d1 \<and> layer_get_data p s = Some d
     \<and> type d1 = fst (prv_get_segment_type cb e s0)
     \<and> type d = type d1
     \<and> (\<exists>pre post. calls_between s0 s1 =
            pre @ calls_between s0 (snd (prv_get_segment_type cb e s0)) @ post
          \<and> (\<forall>e'. Call_get_type e' \<notin> set pre \<union> set post))
     \<and> (\<forall>e'. Call_get_type e' \<notin> set (calls_between s1 s))
     \<and> (\<exists>s'. segment_layer_destroy cb p s = Some s'
          \<and> (\<forall>e'. Call_get_type e' \<notin> set (calls_between s s'))
          \<and> layer_get_data p s' = None)
     \<and> (\<forall>sa ea. entry_type (entries sa ea) = entry_type (entries s0 e)
            \<and> widget_type (entry_widget (entries sa ea)) = widget_type (entry_widget (entries s0 e))
          \<longrightarrow> fst (prv_get_segment_type cb ea sa) = fst (prv_get_segment_type cb e s0))"
proof -
  from destroy_reached [OF c l] obtain s' d where d:
    "segment_layer_destroy cb p s = Some s'" "layer_get_data p s = Some d"
    "layer_get_data p s1 = Some d"
    "calls_between s s' =
          [Call_log APP_LOG_LEVEL_INFO ''destroying SegmentLayer %p.'' (ArgPtr p)]
          @ (if type d \<noteq> SegmentTypeNone then [Call_destroy (View (type d)) (layer d)] else [])
          @ (if al then [Call_destroy TextLayer (assistant_label_layer d)] else [])
          @ [Call_destroy PlainLayer p]"
    "calls_between s0 s1 = [Call_create PlainLayer p]
          @ calls_of_classification cb e (entries s0 e)
          @ (if al then [Call_create TextLayer (assistant_label_layer d)] else [])
          @ (if type d \<noteq> SegmentTypeNone then [Call_create (View (type d)) (layer d)] else [])"
    "\<forall>q. lookup s' q = lookup s0 q"
    by blast
  from d(3) obtain seg1 where sg: "lookup s1 p = Some seg1" "data seg1 = Some d"
    by (auto simp: layer_get_data_def split: option.splits)
  have 1: "type d = fst (prv_get_segment_type cb e s0)"
    by (rule reached_has_view(2) [OF c sg])
  have 2: "\<exists>pre post. calls_between s0 s1 =
            pre @ calls_between s0 (snd (prv_get_segment_type cb e s0)) @ post
          \<and> (\<forall>e'. Call_get_type e' \<notin> set pre \<union> set post)"
  proof (intro exI conjI)
    show "calls_between s0 s1 = [Call_create PlainLayer p]
          @ calls_between s0 (snd (prv_get_segment_type cb e s0))
          @ ((if al then [Call_create TextLayer (assistant_label_layer d)] else [])
          @ (if type d \<noteq> SegmentTypeNone then [Call_create (View (type d)) (layer d)] else []))"
      using d(5) by (simp add: calls_between_classification)
    show "\<forall>e'. Call_get_type e' \<notin> set [Call_create PlainLayer p]
          \<union> set ((if al then [Call_create TextLayer (assistant_label_layer d)] else [])
          @ (if type d \<noteq> SegmentTypeNone then [Call_create (View (type d)) (layer d)] else []))"
      by simp
  qed
  from reached_calls [OF c l] d(2)
  have "set (calls_between s1 s) \<subseteq> {Call_update (type d) (layer d)}"
    by auto
  then have 3: "\<forall>e'. Call_get_type e' \<notin> set (calls_between s1 s)"
    by auto
  have 4: "\<forall>e'. Call_get_type e' \<notin> set (calls_between s s')"
    unfolding d(4) by simp
  have "lookup s0 p = None" using create_data [OF c] by blast
  then have "lookup s' p = None" using d(6) by simp
  then have 5: "layer_get_data p s' = None" by (simp add: layer_get_data_def)
  have 6: "\<forall>sa ea. entry_type (entries sa ea) = entry_type (entries s0 e)
            \<and> widget_type (entry_widget (entries sa ea)) = widget_type (entry_widget (entries s0 e))
          \<longrightarrow> fst (prv_get_segment_type cb ea sa) = fst (prv_get_segment_type cb e s0)"
  proof (intro allI impI)
    fix sa :: world and ea
    assume "entry_type (entries sa ea) = entry_type (entries s0 e)
            \<and> widget_type (entry_widget (entries sa ea)) = widget_type (entry_widget (entries s0 e))"
    then have "type_of_entry cb (entries sa ea) = type_of_entry cb (entries s0 e)"
      by (intro type_of_entry_cong) simp_all
    then show "fst (prv_get_segment_type cb ea sa) = fst (prv_get_segment_type cb e s0)"
      by (simp add: prv_get_segment_type_eq)
  qed
  have 7: "\<exists>s'. segment_layer_destroy cb p s = Some s'
          \<and> (\<forall>e'. Call_get_type e' \<notin> set (calls_between s s'))
          \<and> layer_get_data p s' = None"
    using d(1) 4 5 by blast
  show ?thesis
    by (rule exI [of _ d], rule exI [of _ d], intro conjI)
       (fact d(3) d(2) 1 2 3 6 7 | simp)+
qed

theorem variant_tag_fixed_witness:
  "\<exists>p s1 s d1 d.
       segment_layer_create example_collab (GRect 3 4 180 200) 7 True example_world = Some (p, s1)
     \<and> lifetime example_collab p [Update, EntryChanged 7 (example_entry 4)] s1 = Some s
     \<and> layer_get_data p s1 = Some d1 \<and> layer_get_data p s = Some d
     \<and> type d1 = SegmentTypeTimerWidget \<and> type d = SegmentTypeTimerWidget
     \<and> fst (prv_get_segment_type example_collab 7 s) = SegmentTypeMessage"
proof -
  from create_total obtain p s1 where
    c: "segment_layer_create example_collab (GRect 3 4 180 200) 7 True example_world = Some (p, s1)"
    by blast
  from segment_reached [OF c] obtain s where
    l: "lifetime example_collab p [Update, EntryChanged 7 (example_entry 4)] s1 = Some s"
    by blast
  have t: "fst (prv_get_segment_type example_collab 7 example_world) = SegmentTypeTimerWidget"
    by (simp add: prv_get_segment_type_eq type_of_entry_table example_entry_simps)
  have "entries s 7 = example_entry 4"
    using l by (auto split: option.splits)
  then have m: "fst (prv_get_segment_type example_collab 7 s) = SegmentTypeMessage"
    by (simp add: prv_get_segment_type_eq type_of_entry_table example_entry_def)
  from variant_tag_fixed [OF c l] obtain d1 d where
    "layer_get_data p s1 = Some d1" "layer_get_data p s = Some d"
    "type d1 = fst (prv_get_segment_type example_collab 7 example_world)" "type d = type d1"
    by blast
  with c l t m show ?thesis by simp
qed

subsection \<open>Claim C9: the precondition of the widget accessor\<close>

text \<open>
  Claim C9. The component calls \<open>conversation_entry_get_widget\<close> only on an entry for
  which \<open>conversation_entry_get_type\<close> is \<open>EntryTypeWidget\<close>: the only such call is
  the one in \<open>prv_get_segment_type\<close>, during \<open>segment_layer_create\<close>, on the entry
  being classified when its type is \<open>EntryTypeWidget\<close>; updates and the destruction
  make no such call, and \<open>segment_layer_get_entry\<close> makes no call at all.
\<close>

theorem widget_accessor_only_for_widgets:
  assumes c: "segment_layer_create cb rect e al s0 = Some (p, s1)"
    and l: "lifetime cb p steps s1 = Some s"
  shows "(\<forall>e'. Call_get_widget e' \<in> set (calls_between s0 (snd (prv_get_segment_type cb e s0)))
            \<longrightarrow> e' = e \<and> fst (conversation_entry_get_type e s0) = EntryTypeWidget)
     \<and> (\<forall>e'. Call_get_widget e' \<in> set (calls_between s0 s1)
            \<longrightarrow> e' = e \<and> fst (conversation_entry_get_type e s0) = EntryTypeWidget)
     \<and> (\<forall>e'. Call_get_widget e' \<notin> set (calls_between s1 s))
     \<and> (\<exists>s'. segment_layer_destroy cb p s = Some s'
           \<and> (\<forall>e'. Call_get_widget e' \<notin> set (calls_between s s')))"
proof -
  from destroy_reached [OF c l] obtain s' d where d:
    "segment_layer_destroy cb p s = Some s'" "layer_get_data p s = Some d"
    "calls_between s s' =
          [Call_log APP_LOG_LEVEL_INFO ''destroying SegmentLayer %p.'' (ArgPtr p)]
          @ (if type d \<noteq> SegmentTypeNone then [Call_destroy (View (type d)) (layer d)] else [])
          @ (if al then [Call_destroy TextLayer (assistant_label_layer d)] else [])
          @ [Call_destroy PlainLayer p]"
    "calls_between s0 s1 = [Call_create PlainLayer p]
          @ calls_of_classification cb e (entries s0 e)
          @ (if al then [Call_create TextLayer (assistant_label_layer d)] else [])
          @ (if type d \<noteq> SegmentTypeNone then [Call_create (View (type d)) (layer d)] else [])"
    by blast
  have k: "Call_get_widget e' \<in> set (calls_of_classification cb e (entries s0 e)) \<Longrightarrow>
           e' = e \<and> entry_type (entries s0 e) = EntryTypeWidget" for e'
    by (auto simp: calls_of_classification_cases split: if_splits)
  have 1: "\<forall>e'. Call_get_widget e' \<in> set (calls_between s0 (snd (prv_get_segment_type cb e s0)))
            \<longrightarrow> e' = e \<and> fst (conversation_entry_get_type e s0) = EntryTypeWidget"
    using k by (simp add: calls_between_classification conversation_entry_get_type_def)
  have 2: "\<forall>e'. Call_get_widget e' \<in> set (calls_between s0 s1)
            \<longrightarrow> e' = e \<and> fst (conversation_entry_get_type e s0) = EntryTypeWidget"
    unfolding d(4) using k by (auto simp: conversation_entry_get_type_def)
  from reached_calls [OF c l] d(2)
  have "set (calls_between s1 s) \<subseteq> {Call_update (type d) (layer d)}"
    by auto
  then have 3: "\<forall>e'. Call_get_widget e' \<notin> set (calls_between s1 s)"
    by auto
  have "\<forall>e'. Call_get_widget e' \<notin> set (calls_between s s')"
    unfolding d(3) by simp
  with d(1) have 4: "\<exists>s'. segment_layer_destroy cb p s = Some s'
           \<and> (\<forall>e'. Call_get_widget e' \<notin> set (calls_between s s'))"
    by blast
  show ?thesis by (intro conjI) (fact 1 2 3 4)+
qed

theorem widget_accessor_only_for_widgets_witness:
  "\<exists>p s1 s.
       segment_layer_create example_collab (GRect 3 4 180 200) 4 False example_world = Some (p, s1)
     \<and> lifetime example_collab p [Update, Moved (GPoint 1 2)] s1 = Some s
     \<and> (\<forall>e'. Call_get_widget e' \<notin> set (calls_between example_world s1))
     \<and> (\<forall>e'. Call_get_widget e' \<notin> set (calls_between s1 s))"
proof -
  from create_total obtain p s1 where
    c: "segment_layer_create example_collab (GRect 3 4 180 200) 4 False example_world = Some (p, s1)"
    by blast
  from segment_reached [OF c] obtain s where
    l: "lifetime example_collab p [Update, Moved (GPoint 1 2)] s1 = Some s"
    by blast
  have t: "fst (conversation_entry_get_type 4 example_world) \<noteq> EntryTypeWidget"
    by (simp add: conversation_entry_get_type_def example_entry_simps)
  from widget_accessor_only_for_widgets [OF c l] have
    "\<forall>e'. Call_get_widget e' \<in> set (calls_between example_world s1)
            \<longrightarrow> e' = 4 \<and> fst (conversation_entry_get_type 4 example_world) = EntryTypeWidget"
    "\<forall>e'. Call_get_widget e' \<notin> set (calls_between s1 s)"
    by blast+
  with t c l show ?thesis by blast
qed

subsection \<open>Claim C10: what update leaves unchanged\<close>

text \<open>
  Claim C10. For a segment at any moment of its life (after any number of updates,
  changes of entries and moves), \<open>segment_layer_update\<close> changes of the segment's cell
  only the frame, and of the frame only the size: the origin is the one the segment
  has when update is called, also one the container has moved it to after the
  construction. The stored entry pointer, the tag, the label pointer and the label's
  cell are unchanged, as are the data model and every cell other than the segment's
  and its child's. Hence \<open>segment_layer_get_entry\<close> returns the entry pointer given to
  \<open>segment_layer_create\<close>, before and after the update.
\<close>

theorem update_frame_condition:
  assumes c: "segment_layer_create cb rect e al s0 = Some (p, s1)"
    and l: "lifetime cb p steps s1 = Some s"
  shows "\<exists>s' seg f' d. segment_layer_update cb p s = Some s'
     \<and> lookup s p = Some seg \<and> layer_get_frame p s' = Some f'
     \<and> origin f' = origin (frame seg)
     \<and> lookup s' p = Some (seg\<lparr>frame := f'\<rparr>)
     \<and> layer_get_data p s = Some d \<and> layer_get_data p s' = Some d
     \<and> entry d = e \<and> type d = fst (prv_get_segment_type cb e s0)
     \<and> (assistant_label_layer d \<noteq> NULL) = al
     \<and> lookup s' (assistant_label_layer d) = lookup s (assistant_label_layer d)
     \<and> (\<forall>q. q \<noteq> p \<and> q \<noteq> layer d \<longrightarrow> lookup s' q = lookup s q)
     \<and> entries s' = entries s
     \<and> segment_layer_get_entry p s = Some e
     \<and> segment_layer_get_entry p s' = Some e
     \<and> (\<forall>org sm. lifetime cb p [Moved org] s = Some sm \<longrightarrow>
          (\<exists>su fu. segment_layer_update cb p sm = Some su
             \<and> layer_get_frame p su = Some fu \<and> origin fu = org))"
proof -
  from update_reached [OF c l] obtain seg1 seg d s' cf where u:
    "lookup s1 p = Some seg1" "data seg1 = Some d"
    "lookup s p = Some seg" "data seg = Some d" "segment_ok cb s p"
    "segment_layer_update cb p s = Some s'"
    "lookup s' p = Some (seg\<lparr>frame := final_frame (origin (frame seg)) (rect_size cf)
                                         (assistant_label_layer d)\<rparr>)"
    "\<forall>q. q \<noteq> p \<and> q \<noteq> layer d \<longrightarrow> lookup s' q = lookup s q"
    "entries s' = entries s"
    by blast
  note hv = reached_has_view [OF c u(1,2)]
  let ?f' = "final_frame (origin (frame seg)) (rect_size cf) (assistant_label_layer d)"
  have pn: "p \<noteq> NULL" using u(3) by auto
  have 1: "layer_get_frame p s' = Some ?f'" using u(7) pn by (simp add: layer_get_frame_def)
  have 2: "layer_get_data p s = Some d" "layer_get_data p s' = Some d"
    using u(3,4,7) by (simp_all add: layer_get_data_def)
  have 3: "segment_layer_get_entry p s = Some e" "segment_layer_get_entry p s' = Some e"
    using 2 hv(3) by (simp_all add: segment_layer_get_entry_def)
  have 4: "lookup s' (assistant_label_layer d) = lookup s (assistant_label_layer d)"
  proof (cases "assistant_label_layer d = NULL")
    case True
    then show ?thesis by simp
  next
    case False
    from segment_ok_label [OF u(5,3,4) False] obtain lb where lb:
      "lookup s (assistant_label_layer d) = Some lb" "kind lb = TextLayer"
      by blast
    have a: "assistant_label_layer d \<noteq> p"
      using lb u(3) segment_ok_kind [OF u(5,3)] by auto
    have b: "assistant_label_layer d \<noteq> layer d"
    proof (cases "has_view cb (type d)")
      case True
      from segment_ok_view [OF u(5,3,4) True] lb show ?thesis by auto
    next
      case nv: False
      from segment_ok_no_view [OF u(5,3,4) nv] False show ?thesis by simp
    qed
    from a b u(8) show ?thesis by simp
  qed
  have 5: "\<forall>org sm. lifetime cb p [Moved org] s = Some sm \<longrightarrow>
          (\<exists>su fu. segment_layer_update cb p sm = Some su
             \<and> layer_get_frame p su = Some fu \<and> origin fu = org)"
  proof (intro allI impI)
    fix org sm
    assume m: "lifetime cb p [Moved org] s = Some sm"
    then have l': "lifetime cb p (steps @ [Moved org]) s1 = Some sm"
      using l by (simp add: lifetime_append)
    from layer_set_frame_effect [OF u(3), of "MkGRect org (rect_size (frame seg))"] m u(3) pn
    have sm: "lookup sm p = Some (seg\<lparr>frame := MkGRect org (rect_size (frame seg))\<rparr>)"
      by (auto simp: layer_get_frame_def)
    from update_reached [OF c l'] obtain segm dm su cfm where v:
      "lookup sm p = Some segm" "segment_layer_update cb p sm = Some su"
      "data segm = Some dm"
      "lookup su p = Some (segm\<lparr>frame := final_frame (origin (frame segm)) (rect_size cfm)
                                         (assistant_label_layer dm)\<rparr>)"
      by blast
    from v(1) sm have "origin (frame segm) = org" by auto
    with v(4) have "layer_get_frame p su =
        Some (final_frame org (rect_size cfm) (assistant_label_layer dm))"
      using pn by (simp add: layer_get_frame_def)
    with v(2) show "\<exists>su fu. segment_layer_update cb p sm = Some su
             \<and> layer_get_frame p su = Some fu \<and> origin fu = org"
      by simp
  qed
  show ?thesis
    by (rule exI [of _ s'], rule exI [of _ seg], rule exI [of _ ?f'], rule exI [of _ d],
        intro conjI)
       (fact u hv 1 2 3 4 5 | simp)+
qed

theorem update_frame_condition_witness:
  "\<exists>p s1 s s' f f'.
       segment_layer_create example_collab (GRect 3 4 180 200) 7 True example_world = Some (p, s1)
     \<and> lifetime example_collab p [Update, Moved (GPoint 30 40), Update, Moved (GPoint 50 60)] s1
         = Some s
     \<and> segment_layer_update example_collab p s = Some s'
     \<and> layer_get_frame p s = Some f \<and> layer_get_frame p s' = Some f'
     \<and> origin f' = origin f
     \<and> segment_layer_get_entry p s' = Some 7"
proof -
  from create_total obtain p s1 where
    c: "segment_layer_create example_collab (GRect 3 4 180 200) 7 True example_world = Some (p, s1)"
    by blast
  from segment_reached [OF c] obtain s where
    l: "lifetime example_collab p [Update, Moved (GPoint 30 40), Update, Moved (GPoint 50 60)] s1
         = Some s"
    by blast
  from update_frame_condition [OF c l] obtain s' seg f' where
    "segment_layer_update example_collab p s = Some s'" "lookup s p = Some seg"
    "layer_get_frame p s' = Some f'" "origin f' = origin (frame seg)"
    "segment_layer_get_entry p s' = Some 7"
    by blast
  moreover from this have "layer_get_frame p s = Some (frame seg)"
    by (auto simp: layer_get_frame_def)
  ultimately show ?thesis using c l by auto
qed

end
